theory Spec2Isabelle
  imports Complex_Main
begin

section \<open>Values and records of the metrics pipeline\<close>

text \<open>
  The statement documents are read with \<open>lean()\<close> and typed \<open>any\<close>: a numeric field of a
  document is \<open>undefined\<close> (not stored), \<open>null\<close>, or a number. Numbers are modelled as
  exact reals; dates are instants in milliseconds, compared as the source compares
  \<open>Date\<close> objects (\<open>a.date <= b.date\<close>).
\<close>

datatype jsval = Undefined | Null | Num real

text \<open>Truthiness of a field value, as used by \<open>!x\<close>, \<open>x && ...\<close> and \<open>x || y\<close>.\<close>

fun truthy :: "jsval \<Rightarrow> bool" where
  "truthy (Num n) = (n \<noteq> 0)"
| "truthy Undefined = False"
| "truthy Null = False"

text \<open>\<open>a || b\<close> on two field values.\<close>

definition js_or :: "jsval \<Rightarrow> jsval \<Rightarrow> jsval" where
  "js_or a b = (if truthy a then a else b)"

text \<open>\<open>a || d\<close> with a numeric literal \<open>d\<close> on the right: the result is a number.\<close>

fun or_num :: "jsval \<Rightarrow> real \<Rightarrow> real" where
  "or_num (Num n) d = (if n \<noteq> 0 then n else d)"
| "or_num Undefined d = d"
| "or_num Null d = d"

text \<open>A quarterly statement document (the fields \<open>calculateHistoricalMetrics\<close> reads).\<close>

record quarter =
  q_date :: int
  commonStockSharesOutstanding :: jsval
  netIncome :: jsval
  totalRevenue :: jsval
  totalStockholderEquity :: jsval
  longTermDebt :: jsval
  shortTermDebt :: jsval
  shortLongTermDebt :: jsval
  cashAndShortTermInvestments :: jsval
  cash :: jsval

text \<open>An \<open>InternationalStock\<close> document (the fields read).\<close>

record sharesData =
  sd_date :: int
  sd_commonStockSharesOutstanding :: jsval

text \<open>An element of \<open>priceDataPoints\<close>.\<close>

record priceData =
  pd_price :: real
  pd_volume :: real
  pd_date :: int

text \<open>\<open>IPriceMetrics\<close>: a nullable column is an option.\<close>

record IPriceMetrics =
  ticker :: string
  symbol :: string
  date :: int
  price :: real
  volume :: real
  marketCap :: real
  peRatioTTM :: "real option"
  psRatioTTM :: "real option"
  pbRatioTTM :: "real option"
  enterpriseValue :: "real option"
  isInternational :: bool
  lastUpdated :: int

datatype error = StoreError | ProviderError | MergeError

section \<open>calculateHistoricalMetrics\<close>

subsection \<open>International path\<close>

text \<open>
  The inner loop over \<open>intlStockData\<close>: \<open>closestSharesData\<close> starts as \<open>null\<close>, is
  overwritten by every record dated at or before the price date, and the loop breaks at
  the first record dated after it.
\<close>

fun closestScan :: "sharesData option \<Rightarrow> sharesData list \<Rightarrow> int \<Rightarrow> sharesData option" where
  "closestScan c [] d = c"
| "closestScan c (s # ss) d = (if sd_date s \<le> d then closestScan (Some s) ss d else c)"

definition closestSharesData :: "sharesData list \<Rightarrow> int \<Rightarrow> sharesData option" where
  "closestSharesData intlStockData d = closestScan None intlStockData d"

definition intlRow :: "string \<Rightarrow> priceData \<Rightarrow> real \<Rightarrow> int \<Rightarrow> IPriceMetrics" where
  "intlRow tk p shares now =
     \<lparr> ticker = tk, symbol = tk, date = pd_date p, price = pd_price p,
       volume = pd_volume p, marketCap = pd_price p * shares,
       peRatioTTM = None, psRatioTTM = None, pbRatioTTM = None,
       enterpriseValue = None, isInternational = True, lastUpdated = now \<rparr>"

text \<open>One iteration of the loop over the price points: the row pushed, if any.\<close>

definition intlPoint :: "string \<Rightarrow> sharesData list \<Rightarrow> int \<Rightarrow> priceData \<Rightarrow> IPriceMetrics option" where
  "intlPoint tk intlStockData now p =
     (case closestSharesData intlStockData (pd_date p) of
        None \<Rightarrow> None
      | Some s \<Rightarrow>
          (case sd_commonStockSharesOutstanding s of
             Num n \<Rightarrow> if n \<noteq> 0 then Some (intlRow tk p n now) else None
           | Undefined \<Rightarrow> None
           | Null \<Rightarrow> None))"

subsection \<open>US path\<close>

definition availableQuarters :: "quarter list \<Rightarrow> int \<Rightarrow> quarter list" where
  "availableQuarters allQuarters d = filter (\<lambda>q. q_date q \<le> d) allQuarters"

text \<open>\<open>xs.slice(-4)\<close>: the last four elements, or all of them when there are fewer.\<close>

definition ttmQuarters :: "quarter list \<Rightarrow> quarter list" where
  "ttmQuarters av = (if length av \<le> 4 then av else drop (length av - 4) av)"

definition sumNetIncome :: "quarter list \<Rightarrow> real" where
  "sumNetIncome ttm = foldl (\<lambda>sum q. sum + or_num (netIncome q) 0) 0 ttm"

definition sumTotalRevenue :: "quarter list \<Rightarrow> real" where
  "sumTotalRevenue ttm = foldl (\<lambda>sum q. sum + or_num (totalRevenue q) 0) 0 ttm"

definition scaleFactor :: "nat \<Rightarrow> real" where
  "scaleFactor quartersAvailable =
     (if quartersAvailable > 0 then 4 / real quartersAvailable else 0)"

definition ttmNetIncome :: "quarter list \<Rightarrow> real" where
  "ttmNetIncome ttm = sumNetIncome ttm * scaleFactor (length ttm)"

definition ttmTotalRevenue :: "quarter list \<Rightarrow> real" where
  "ttmTotalRevenue ttm = sumTotalRevenue ttm * scaleFactor (length ttm)"

definition peRatio :: "real \<Rightarrow> quarter list \<Rightarrow> real option" where
  "peRatio mc ttm = (if ttmNetIncome ttm > 0 then Some (mc / ttmNetIncome ttm) else None)"

definition psRatio :: "real \<Rightarrow> quarter list \<Rightarrow> real option" where
  "psRatio mc ttm = (if ttmTotalRevenue ttm > 0 then Some (mc / ttmTotalRevenue ttm) else None)"

text \<open>
  \<open>totalStockholderEquity > 0\<close> is false on \<open>undefined\<close> (NaN) and on \<open>null\<close> (0).
\<close>

definition pbRatio :: "real \<Rightarrow> quarter \<Rightarrow> real option" where
  "pbRatio mc latestQuarter =
     (case totalStockholderEquity latestQuarter of
        Num e \<Rightarrow> if 0 < e then Some (mc / e) else None
      | Undefined \<Rightarrow> None
      | Null \<Rightarrow> None)"

text \<open>The guard of the enterprise-value block: five tests \<open>!== undefined\<close>.\<close>

definition debtFieldsExist :: "quarter \<Rightarrow> bool" where
  "debtFieldsExist q =
     (longTermDebt q \<noteq> Undefined \<or> shortTermDebt q \<noteq> Undefined \<or>
      shortLongTermDebt q \<noteq> Undefined \<or> cashAndShortTermInvestments q \<noteq> Undefined \<or>
      cash q \<noteq> Undefined)"

definition totalDebt :: "quarter \<Rightarrow> real" where
  "totalDebt q =
     or_num (longTermDebt q) 0 + or_num (shortTermDebt q) 0 + or_num (shortLongTermDebt q) 0"

text \<open>The local \<open>cash\<close> of the block: \<open>cashAndShortTermInvestments || cash || 0\<close>.\<close>

definition cashTerm :: "quarter \<Rightarrow> real" where
  "cashTerm q = or_num (js_or (cashAndShortTermInvestments q) (cash q)) 0"

definition enterpriseValueOf :: "real \<Rightarrow> quarter \<Rightarrow> real option" where
  "enterpriseValueOf mc latestQuarter =
     (if debtFieldsExist latestQuarter
      then Some (mc + totalDebt latestQuarter - cashTerm latestQuarter)
      else None)"

definition usRow ::
  "string \<Rightarrow> priceData \<Rightarrow> quarter \<Rightarrow> quarter list \<Rightarrow> real \<Rightarrow> int \<Rightarrow> IPriceMetrics" where
  "usRow tk p latestQuarter ttm sharesOutstanding now =
     (let mc = pd_price p * sharesOutstanding in
      \<lparr> ticker = tk, symbol = tk, date = pd_date p, price = pd_price p,
        volume = pd_volume p, marketCap = mc,
        peRatioTTM = peRatio mc ttm, psRatioTTM = psRatio mc ttm,
        pbRatioTTM = pbRatio mc latestQuarter,
        enterpriseValue = enterpriseValueOf mc latestQuarter,
        isInternational = False, lastUpdated = now \<rparr>)"

text \<open>One iteration of the loop over the price points; \<open>None\<close> is a \<open>continue\<close>.\<close>

definition usPoint :: "string \<Rightarrow> quarter list \<Rightarrow> int \<Rightarrow> priceData \<Rightarrow> IPriceMetrics option" where
  "usPoint tk allQuarters now p =
     (let av = availableQuarters allQuarters (pd_date p) in
      if av = [] then None
      else
        let latestQuarter = last av in
        (case commonStockSharesOutstanding latestQuarter of
           Num n \<Rightarrow>
             if n \<noteq> 0 then Some (usRow tk p latestQuarter (ttmQuarters av) n now) else None
         | Undefined \<Rightarrow> None
         | Null \<Rightarrow> None))"

subsection \<open>The whole derivation of one security\<close>

text \<open>
  The three reads of the derivation are results of the stores: \<open>Inl\<close> is a rejected
  promise. \<open>getHistoricalPriceData\<close> catches a provider failure and answers \<open>[]\<close>; the
  price points are taken with their dates already standardised to the market close.
  \<open>now\<close> is the reading of the clock stored as \<open>lastUpdated\<close>.
\<close>

definition getHistoricalPriceData :: "error + priceData list \<Rightarrow> priceData list" where
  "getHistoricalPriceData fetched = (case fetched of Inl e \<Rightarrow> [] | Inr ps \<Rightarrow> ps)"

text \<open>The body of the \<open>try\<close> block: \<open>Inl\<close> is an exception leaving it.\<close>

definition calcBody ::
  "error + priceData list \<Rightarrow> error + sharesData list \<Rightarrow> error + quarter list \<Rightarrow>
   string \<Rightarrow> bool \<Rightarrow> int \<Rightarrow> error + IPriceMetrics list" where
  "calcBody fetched intlFound usFound tk isIntl now =
     (let priceDataPoints = getHistoricalPriceData fetched in
      if priceDataPoints = [] then Inr []
      else if isIntl then
        (case intlFound of
           Inl e \<Rightarrow> Inl e
         | Inr intlStockData \<Rightarrow>
             if intlStockData = [] then Inr []
             else Inr (List.map_filter (intlPoint tk intlStockData now) priceDataPoints))
      else
        (case usFound of
           Inl e \<Rightarrow> Inl e
         | Inr allQuarters \<Rightarrow>
             if allQuarters = [] then Inr []
             else Inr (List.map_filter (usPoint tk allQuarters now) priceDataPoints)))"

definition calculateHistoricalMetrics ::
  "error + priceData list \<Rightarrow> error + sharesData list \<Rightarrow> error + quarter list \<Rightarrow>
   string \<Rightarrow> bool \<Rightarrow> int \<Rightarrow> IPriceMetrics list" where
  "calculateHistoricalMetrics fetched intlFound usFound tk isIntl now =
     (case calcBody fetched intlFound usFound tk isIntl now of
        Inl e \<Rightarrow> []
      | Inr metrics \<Rightarrow> metrics)"

text \<open>
  The join of the US loop on its own: the filter, the emptiness test and the last element
  (\<open>availableQuarters[availableQuarters.length - 1]\<close>).
\<close>

definition latestQuarterAsOf :: "quarter list \<Rightarrow> int \<Rightarrow> quarter option" where
  "latestQuarterAsOf allQuarters d =
     (let av = availableQuarters allQuarters d in if av = [] then None else Some (last av))"

section \<open>One batch of hydrateAllData\<close>

text \<open>What the stores answer for each ticker.\<close>

record sources =
  fetchPrices :: "string \<Rightarrow> error + priceData list"
  findIntl :: "string \<Rightarrow> error + sharesData list"
  findQuarters :: "string \<Rightarrow> error + quarter list"

text \<open>The callback mapped over the batch.\<close>

definition deriveTicker :: "sources \<Rightarrow> string list \<Rightarrow> int \<Rightarrow> string \<Rightarrow> IPriceMetrics list" where
  "deriveTicker src intlTickers now tk =
     calculateHistoricalMetrics (fetchPrices src tk) (findIntl src tk) (findQuarters src tk)
       tk (tk \<in> set intlTickers) now"

text \<open>Whether an exception leaves the \<open>try\<close> body of the derivation of \<open>tk\<close>.\<close>

definition derivationThrows :: "sources \<Rightarrow> string list \<Rightarrow> int \<Rightarrow> string \<Rightarrow> bool" where
  "derivationThrows src intlTickers now tk =
     (case calcBody (fetchPrices src tk) (findIntl src tk) (findQuarters src tk)
             tk (tk \<in> set intlTickers) now of
        Inl e \<Rightarrow> True
      | Inr metrics \<Rightarrow> False)"

text \<open>
  \<open>Promise.all\<close> over derivations that never reject gives their results in the order of
  the batch; \<open>allMetrics\<close> is their concatenation.
\<close>

definition batchAllMetrics :: "sources \<Rightarrow> string list \<Rightarrow> int \<Rightarrow> string list \<Rightarrow> IPriceMetrics list" where
  "batchAllMetrics src intlTickers now batch =
     concat (map (deriveTicker src intlTickers now) batch)"

text \<open>The call of \<open>saveMetrics\<close> the batch makes: its argument, or \<open>None\<close> when it is not called.\<close>

definition batchSave :: "sources \<Rightarrow> string list \<Rightarrow> int \<Rightarrow> string list \<Rightarrow> IPriceMetrics list option" where
  "batchSave src intlTickers now batch =
     (let allMetrics = batchAllMetrics src intlTickers now batch in
      if allMetrics \<noteq> [] then Some allMetrics else None)"

section \<open>Staging and merge of PriceMetricsDataManager\<close>

text \<open>
  A table is the list of its rows; the store keeps no order and no uniqueness, the list
  order is the model's. The sub-batch loop of \<open>insertPriceMetricsToTempTable\<close> appends
  \<open>rows.slice(i, i + 500)\<close> to the staging table.
\<close>

function insertLoop :: "nat \<Rightarrow> IPriceMetrics list \<Rightarrow> IPriceMetrics list \<Rightarrow> IPriceMetrics list" where
  "insertLoop i rows temp =
     (if i < length rows then insertLoop (i + 500) rows (temp @ take 500 (drop i rows))
      else temp)"
  by pat_completeness auto
termination
  by (relation "measure (\<lambda>(i, rows, temp). length rows - i)") auto

declare insertLoop.simps [simp del]

definition insertPriceMetricsToTempTable :: "IPriceMetrics list \<Rightarrow> IPriceMetrics list \<Rightarrow> IPriceMetrics list" where
  "insertPriceMetricsToTempTable metrics temp =
     (if metrics = [] then temp else insertLoop 0 metrics temp)"

text \<open>The \<open>ON\<close> condition of the merge statement.\<close>

definition keyMatch :: "IPriceMetrics \<Rightarrow> IPriceMetrics \<Rightarrow> bool" where
  "keyMatch t s = (ticker t = ticker s \<and> date t = date s)"

text \<open>The \<open>UPDATE SET\<close> list of the statement: nine columns; \<open>symbol\<close> is not among them.\<close>

definition updateSet :: "IPriceMetrics \<Rightarrow> IPriceMetrics \<Rightarrow> IPriceMetrics" where
  "updateSet t s =
     t\<lparr> price := price s, volume := volume s, marketCap := marketCap s,
        peRatioTTM := peRatioTTM s, psRatioTTM := psRatioTTM s,
        pbRatioTTM := pbRatioTTM s, enterpriseValue := enterpriseValue s,
        isInternational := isInternational s, lastUpdated := lastUpdated s \<rparr>"

text \<open>
  The \<open>MERGE\<close> statement: a target row matched by one staging row is updated, a staging
  row matching no target row is inserted whole, and the statement fails when a target row
  is matched by more than one staging row.
\<close>

definition mergeQuery :: "IPriceMetrics list \<Rightarrow> IPriceMetrics list \<Rightarrow> error + IPriceMetrics list" where
  "mergeQuery T S =
     (if list_ex (\<lambda>t. 1 < length (filter (keyMatch t) S)) T then Inl MergeError
      else Inr (map (\<lambda>t. case find (keyMatch t) S of None \<Rightarrow> t | Some s \<Rightarrow> updateSet t s) T
                @ filter (\<lambda>s. \<not> list_ex (\<lambda>t. keyMatch t s) T) S))"

text \<open>
  \<open>mergeTempTableToMainTable\<close>: the new main table, or the error rethrown; the staging
  table is dropped either way.
\<close>

definition mergeTempTableToMainTable :: "IPriceMetrics list \<Rightarrow> IPriceMetrics list \<Rightarrow> error + IPriceMetrics list" where
  "mergeTempTableToMainTable main temp = mergeQuery main temp"

text \<open>
  The three store calls of \<open>saveMetrics\<close>: a staging table created empty, the batch
  inserted, the merge.
\<close>

definition stagingMerge :: "IPriceMetrics list \<Rightarrow> IPriceMetrics list \<Rightarrow> error + IPriceMetrics list" where
  "stagingMerge main metrics =
     mergeTempTableToMainTable main (insertPriceMetricsToTempTable metrics [])"

section \<open>Specification-side notions\<close>

text \<open>
  The record an as-of join has to return: an element of the list dated at or before \<open>d\<close>
  such that no element dated at or before \<open>d\<close> is dated later.
\<close>

definition isLatestAtOrBefore :: "('a \<Rightarrow> int) \<Rightarrow> 'a list \<Rightarrow> int \<Rightarrow> 'a \<Rightarrow> bool" where
  "isLatestAtOrBefore f xs d x =
     (x \<in> set xs \<and> f x \<le> d \<and> (\<forall>y\<in>set xs. f y \<le> d \<longrightarrow> f y \<le> f x))"

text \<open>A field read as a number, a missing one (\<open>undefined\<close> or \<open>null\<close>) counting as 0.\<close>

fun numOrZero :: "jsval \<Rightarrow> real" where
  "numOrZero (Num n) = n"
| "numOrZero Undefined = 0"
| "numOrZero Null = 0"

text \<open>A field that holds a number other than 0.\<close>

fun presentNonZero :: "jsval \<Rightarrow> bool" where
  "presentNonZero (Num n) = (n \<noteq> 0)"
| "presentNonZero Undefined = False"
| "presentNonZero Null = False"

text \<open>Rows with pairwise different (ticker, date).\<close>

definition oneRowPerKey :: "IPriceMetrics list \<Rightarrow> bool" where
  "oneRowPerKey B = distinct (map (\<lambda>r. (ticker r, date r)) B)"

section \<open>Example data\<close>

definition mkQuarter :: "int \<Rightarrow> jsval \<Rightarrow> jsval \<Rightarrow> jsval \<Rightarrow> jsval \<Rightarrow> quarter" where
  "mkQuarter d sh ni tr eq =
     \<lparr> q_date = d, commonStockSharesOutstanding = sh, netIncome = ni, totalRevenue = tr,
       totalStockholderEquity = eq, longTermDebt = Undefined, shortTermDebt = Undefined,
       shortLongTermDebt = Undefined, cashAndShortTermInvestments = Undefined,
       cash = Undefined \<rparr>"

text \<open>Three quarters with income 100, 120, 110 and 10 shares; a price of 50 after the third.\<close>

definition exQuarters :: "quarter list" where
  "exQuarters =
     [mkQuarter 10 (Num 10) (Num 100) (Num 400) (Num 250),
      mkQuarter 20 (Num 10) (Num 120) Undefined (Num 250),
      mkQuarter 30 (Num 10) (Num 110) (Num 350) (Num 250)]"

definition exPrice :: priceData where
  "exPrice = \<lparr> pd_price = 50, pd_volume = 1000, pd_date = 35 \<rparr>"

text \<open>A price between the second and the third quarter.\<close>

definition exPriceMid :: priceData where
  "exPriceMid = \<lparr> pd_price = 50, pd_volume = 1000, pd_date = 25 \<rparr>"

text \<open>A price before the first quarter.\<close>

definition exPriceEarly :: priceData where
  "exPriceEarly = \<lparr> pd_price = 50, pd_volume = 1000, pd_date = 5 \<rparr>"

text \<open>A price between the first and the second quarter.\<close>

definition exPriceFirst :: priceData where
  "exPriceFirst = \<lparr> pd_price = 50, pd_volume = 1000, pd_date = 15 \<rparr>"

text \<open>Shares reported, then a latest quarter with the share count 0.\<close>

definition exQuartersGap :: "quarter list" where
  "exQuartersGap =
     [mkQuarter 10 (Num 10) (Num 100) (Num 400) (Num 250),
      mkQuarter 20 (Num 0) (Num 120) (Num 410) (Num 250)]"

text \<open>A latest quarter with debt 300, cashAndShortTermInvestments 0 and cash 40.\<close>

definition exQuartersDebt :: "quarter list" where
  "exQuartersDebt =
     [(mkQuarter 10 (Num 10) (Num 100) (Num 400) (Num 250))
        \<lparr> longTermDebt := Num 300, cashAndShortTermInvestments := Num 0, cash := Num 40 \<rparr>]"

text \<open>
  1,000,000 shares as of 2023-01-01 (UTC midnight) and a close of 12.50 on 2023-03-15
  (16:00 New York), in milliseconds.
\<close>

definition exShares :: "sharesData list" where
  "exShares = [\<lparr> sd_date = 1672531200000, sd_commonStockSharesOutstanding = Num 1000000 \<rparr>]"

definition exIntlPrice :: priceData where
  "exIntlPrice = \<lparr> pd_price = 25 / 2, pd_volume = 300, pd_date = 1678910400000 \<rparr>"

definition exSharesSeries :: "sharesData list" where
  "exSharesSeries =
     [\<lparr> sd_date = 10, sd_commonStockSharesOutstanding = Num 500 \<rparr>,
      \<lparr> sd_date = 20, sd_commonStockSharesOutstanding = Num 0 \<rparr>,
      \<lparr> sd_date = 30, sd_commonStockSharesOutstanding = Num 700 \<rparr>]"

text \<open>Five quarters, so that the trailing window drops the first.\<close>

definition exQuartersFive :: "quarter list" where
  "exQuartersFive =
     [mkQuarter 10 (Num 10) (Num 900) (Num 400) (Num 250),
      mkQuarter 20 (Num 10) (Num 100) (Num 400) (Num 250),
      mkQuarter 30 (Num 10) Null (Num 410) (Num 250),
      mkQuarter 40 (Num 10) (Num 110) (Num 420) (Num 250),
      mkQuarter 50 (Num 10) (Num 90) (Num 430) (Num 250)]"

definition exPriceLate :: priceData where
  "exPriceLate = \<lparr> pd_price = 50, pd_volume = 1000, pd_date = 55 \<rparr>"

text \<open>A single quarter with a loss, no revenue and no equity figure.\<close>

definition exQuartersLoss :: "quarter list" where
  "exQuartersLoss = [mkQuarter 10 (Num 10) (Num (- 50)) Undefined Null]"

text \<open>
  Stores in which the statements of ticker A cannot be read, B is a US security and C an
  international one.
\<close>

definition exSources :: sources where
  "exSources =
     \<lparr> fetchPrices = (\<lambda>tk. Inr [exPrice]),
       findIntl = (\<lambda>tk. if tk = ''C'' then Inr exSharesSeries else Inr []),
       findQuarters = (\<lambda>tk. if tk = ''A'' then Inl StoreError
                             else if tk = ''B'' then Inr exQuarters else Inr []) \<rparr>"

text \<open>A durable table with one row, and a batch that matches it and adds a second date.\<close>

definition mkRow :: "string \<Rightarrow> int \<Rightarrow> real \<Rightarrow> real \<Rightarrow> int \<Rightarrow> IPriceMetrics" where
  "mkRow tk d pr mc lu =
     \<lparr> ticker = tk, symbol = tk, date = d, price = pr, volume = 1000, marketCap = mc,
       peRatioTTM = None, psRatioTTM = Some 2, pbRatioTTM = None, enterpriseValue = None,
       isInternational = False, lastUpdated = lu \<rparr>"

definition exMain :: "IPriceMetrics list" where
  "exMain = [(mkRow ''B'' 35 49 490 1)\<lparr> symbol := ''B.US'' \<rparr>]"

definition exBatch :: "IPriceMetrics list" where
  "exBatch = [mkRow ''B'' 35 50 500 2, mkRow ''B'' 36 51 510 2]"

section \<open>The as-of join\<close>


lemma takeWhile_filter_sorted:
  "sorted (map f xs) \<Longrightarrow> takeWhile (\<lambda>x. f x \<le> (d::int)) xs = filter (\<lambda>x. f x \<le> d) xs"
proof (induction xs)
  case Nil
  show ?case by simp
next
  case (Cons x xs)
  show ?case
  proof (cases "f x \<le> d")
    case True
    with Cons show ?thesis by simp
  next
    case False
    from Cons.prems have "\<forall>y\<in>set xs. f x \<le> f y" by simp
    with False have "\<forall>y\<in>set xs. \<not> f y \<le> d" by fastforce
    then have "filter (\<lambda>x. f x \<le> d) xs = []" by (simp add: filter_empty_conv)
    with False show ?thesis by simp
  qed
qed

lemma closestScan_takeWhile:
  "closestScan c ss d =
     (let pre = takeWhile (\<lambda>s. sd_date s \<le> d) ss in if pre = [] then c else Some (last pre))"
  by (induction ss arbitrary: c) (auto simp: Let_def)

lemma sorted_le_last:
  "sorted (xs::int list) \<Longrightarrow> x \<in> set xs \<Longrightarrow> x \<le> last xs"
  by (induction xs) auto

lemma last_filter_max:
  assumes "sorted (map f xs)" and "filter (\<lambda>x. f x \<le> (d::int)) xs \<noteq> []"
  shows "isLatestAtOrBefore f xs d (last (filter (\<lambda>x. f x \<le> d) xs))"
proof -
  let ?av = "filter (\<lambda>x. f x \<le> d) xs"
  have mem: "last ?av \<in> set ?av" using assms(2) by (rule last_in_set)
  have srt: "sorted (map f ?av)" using assms(1) by (rule sorted_filter)
  have "\<forall>y\<in>set ?av. f y \<le> f (last ?av)"
  proof
    fix y assume "y \<in> set ?av"
    then have "f y \<in> set (map f ?av)" by simp
    with srt have "f y \<le> last (map f ?av)" by (rule sorted_le_last)
    then show "f y \<le> f (last ?av)" using assms(2) by (simp add: last_map)
  qed
  with mem show ?thesis by (auto simp: isLatestAtOrBefore_def)
qed

lemma filter_empty_later:
  "(filter (\<lambda>x. f x \<le> (d::int)) xs = []) = (\<forall>x\<in>set xs. d < f x)"
  by (auto simp: filter_empty_conv)

lemma latestQuarterAsOf_None:
  "(latestQuarterAsOf qs d = None) = (\<forall>q\<in>set qs. d < q_date q)"
  by (simp add: latestQuarterAsOf_def availableQuarters_def Let_def filter_empty_later)

lemma latestQuarterAsOf_Some:
  "sorted (map q_date qs) \<Longrightarrow> latestQuarterAsOf qs d = Some q \<Longrightarrow> isLatestAtOrBefore q_date qs d q"
  using last_filter_max [of q_date qs d]
  by (auto simp: latestQuarterAsOf_def availableQuarters_def Let_def split: if_splits)

lemma closestSharesData_filter:
  "sorted (map sd_date ss) \<Longrightarrow>
   closestSharesData ss d =
     (let pre = filter (\<lambda>s. sd_date s \<le> d) ss in if pre = [] then None else Some (last pre))"
  by (simp add: closestSharesData_def closestScan_takeWhile takeWhile_filter_sorted)

lemma closestSharesData_None:
  "sorted (map sd_date ss) \<Longrightarrow> (closestSharesData ss d = None) = (\<forall>s\<in>set ss. d < sd_date s)"
  by (simp add: closestSharesData_filter Let_def filter_empty_later)

lemma closestSharesData_Some:
  "sorted (map sd_date ss) \<Longrightarrow> closestSharesData ss d = Some s \<Longrightarrow> isLatestAtOrBefore sd_date ss d s"
  using last_filter_max [of sd_date ss d]
  by (auto simp: closestSharesData_filter Let_def split: if_splits)

lemma usPoint_join:
  "usPoint tk qs now p =
     (case latestQuarterAsOf qs (pd_date p) of
        None \<Rightarrow> None
      | Some latest \<Rightarrow>
          (case commonStockSharesOutstanding latest of
             Num n \<Rightarrow>
               if n \<noteq> 0
               then Some (usRow tk p latest (ttmQuarters (availableQuarters qs (pd_date p))) n now)
               else None
           | Undefined \<Rightarrow> None
           | Null \<Rightarrow> None))"
  by (simp add: usPoint_def latestQuarterAsOf_def Let_def)

lemma usPoint_Some:
  "usPoint tk qs now p = Some r \<Longrightarrow>
   \<exists>latest n. latestQuarterAsOf qs (pd_date p) = Some latest
     \<and> commonStockSharesOutstanding latest = Num n \<and> n \<noteq> 0
     \<and> r = usRow tk p latest (ttmQuarters (availableQuarters qs (pd_date p))) n now"
  by (auto simp: usPoint_join split: option.splits jsval.splits if_splits)

lemma intlPoint_Some:
  "intlPoint tk ss now p = Some r \<Longrightarrow>
   \<exists>s n. closestSharesData ss (pd_date p) = Some s
     \<and> sd_commonStockSharesOutstanding s = Num n \<and> n \<noteq> 0
     \<and> r = intlRow tk p n now"
  by (auto simp: intlPoint_def split: option.splits jsval.splits if_splits)

text \<open>
  C1. With the statement records of a security sorted ascending by date, the record the
  metrics row of a price date is derived from is the one with the largest date at or
  before the price date, in the US loop (filter, then last element) and in the
  international loop (forward scan with a break); when every record is dated after the
  price date, or there is no record, none is selected and no row is pushed for the date.
\<close>

theorem asof_join_correct:
  assumes "sorted (map q_date allQuarters)" and "sorted (map sd_date intlStockData)"
  shows "(latestQuarterAsOf allQuarters (pd_date p) = None
            \<longleftrightarrow> (\<forall>q\<in>set allQuarters. pd_date p < q_date q))
       \<and> (\<forall>q. latestQuarterAsOf allQuarters (pd_date p) = Some q
            \<longrightarrow> isLatestAtOrBefore q_date allQuarters (pd_date p) q)
       \<and> (latestQuarterAsOf allQuarters (pd_date p) = None \<longrightarrow> usPoint tk allQuarters now p = None)
       \<and> (\<forall>r. usPoint tk allQuarters now p = Some r \<longrightarrow>
            (\<exists>latest n. latestQuarterAsOf allQuarters (pd_date p) = Some latest
               \<and> commonStockSharesOutstanding latest = Num n
               \<and> r = usRow tk p latest (ttmQuarters (availableQuarters allQuarters (pd_date p))) n now))
       \<and> (closestSharesData intlStockData (pd_date p) = None
            \<longleftrightarrow> (\<forall>s\<in>set intlStockData. pd_date p < sd_date s))
       \<and> (\<forall>s. closestSharesData intlStockData (pd_date p) = Some s
            \<longrightarrow> isLatestAtOrBefore sd_date intlStockData (pd_date p) s)
       \<and> (closestSharesData intlStockData (pd_date p) = None
            \<longrightarrow> intlPoint tk intlStockData now p = None)
       \<and> (\<forall>r. intlPoint tk intlStockData now p = Some r \<longrightarrow>
            (\<exists>s n. closestSharesData intlStockData (pd_date p) = Some s
               \<and> sd_commonStockSharesOutstanding s = Num n
               \<and> r = intlRow tk p n now))"
proof (intro conjI allI impI)
  show "(latestQuarterAsOf allQuarters (pd_date p) = None) = (\<forall>q\<in>set allQuarters. pd_date p < q_date q)"
    by (rule latestQuarterAsOf_None)
next
  fix q assume "latestQuarterAsOf allQuarters (pd_date p) = Some q"
  with assms(1) show "isLatestAtOrBefore q_date allQuarters (pd_date p) q"
    by (rule latestQuarterAsOf_Some)
next
  assume "latestQuarterAsOf allQuarters (pd_date p) = None"
  then show "usPoint tk allQuarters now p = None" by (simp add: usPoint_join)
next
  fix r assume "usPoint tk allQuarters now p = Some r"
  then show "\<exists>latest n. latestQuarterAsOf allQuarters (pd_date p) = Some latest
               \<and> commonStockSharesOutstanding latest = Num n
               \<and> r = usRow tk p latest (ttmQuarters (availableQuarters allQuarters (pd_date p))) n now"
    using usPoint_Some by blast
next
  show "(closestSharesData intlStockData (pd_date p) = None) = (\<forall>s\<in>set intlStockData. pd_date p < sd_date s)"
    using assms(2) by (rule closestSharesData_None)
next
  fix s assume "closestSharesData intlStockData (pd_date p) = Some s"
  with assms(2) show "isLatestAtOrBefore sd_date intlStockData (pd_date p) s"
    by (rule closestSharesData_Some)
next
  assume "closestSharesData intlStockData (pd_date p) = None"
  then show "intlPoint tk intlStockData now p = None" by (simp add: intlPoint_def)
next
  fix r assume "intlPoint tk intlStockData now p = Some r"
  then show "\<exists>s n. closestSharesData intlStockData (pd_date p) = Some s
               \<and> sd_commonStockSharesOutstanding s = Num n
               \<and> r = intlRow tk p n now"
    using intlPoint_Some by blast
qed

theorem asof_join_correct_witness:
  "sorted (map q_date exQuarters) \<and> sorted (map sd_date exSharesSeries)
   \<and> latestQuarterAsOf exQuarters (pd_date exPriceMid) = Some (exQuarters ! 1)
   \<and> isLatestAtOrBefore q_date exQuarters (pd_date exPriceMid) (exQuarters ! 1)
   \<and> usPoint ''X'' exQuarters 0 exPriceMid
       = Some (usRow ''X'' exPriceMid (exQuarters ! 1) (take 2 exQuarters) 10 0)
   \<and> list_all (\<lambda>q. pd_date exPriceEarly < q_date q) exQuarters
   \<and> latestQuarterAsOf exQuarters (pd_date exPriceEarly) = None
   \<and> usPoint ''X'' exQuarters 0 exPriceEarly = None
   \<and> closestSharesData exSharesSeries (pd_date exPrice) = Some (exSharesSeries ! 2)
   \<and> isLatestAtOrBefore sd_date exSharesSeries (pd_date exPrice) (exSharesSeries ! 2)
   \<and> intlPoint ''X'' exSharesSeries 0 exPrice = Some (intlRow ''X'' exPrice 700 0)
   \<and> list_all (\<lambda>s. pd_date exPriceEarly < sd_date s) exSharesSeries
   \<and> closestSharesData exSharesSeries (pd_date exPriceEarly) = None
   \<and> intlPoint ''X'' exSharesSeries 0 exPriceEarly = None"
proof -
  have h1: "sorted (map q_date exQuarters)"
    by (simp add: exQuarters_def mkQuarter_def)
  have h2: "sorted (map sd_date exSharesSeries)"
    by (simp add: exSharesSeries_def)
  have l: "latestQuarterAsOf exQuarters (pd_date exPriceMid) = Some (exQuarters ! 1)"
    by (simp add: latestQuarterAsOf_def availableQuarters_def exQuarters_def mkQuarter_def
        exPriceMid_def)
  have u: "usPoint ''X'' exQuarters 0 exPriceMid
       = Some (usRow ''X'' exPriceMid (exQuarters ! 1) (take 2 exQuarters) 10 0)"
    by (simp add: usPoint_def availableQuarters_def ttmQuarters_def exQuarters_def
        mkQuarter_def exPriceMid_def Let_def)
  have e: "\<forall>q\<in>set exQuarters. pd_date exPriceEarly < q_date q"
    by (simp add: exQuarters_def mkQuarter_def exPriceEarly_def)
  have c: "closestSharesData exSharesSeries (pd_date exPrice) = Some (exSharesSeries ! 2)"
    by (simp add: closestSharesData_def exSharesSeries_def exPrice_def)
  have i: "intlPoint ''X'' exSharesSeries 0 exPrice = Some (intlRow ''X'' exPrice 700 0)"
    by (simp add: intlPoint_def closestSharesData_def exSharesSeries_def exPrice_def)
  have f: "\<forall>s\<in>set exSharesSeries. pd_date exPriceEarly < sd_date s"
    by (simp add: exSharesSeries_def exPriceEarly_def)
  note mid = asof_join_correct [OF h1 h2, of exPriceMid "''X''" 0]
  note late = asof_join_correct [OF h1 h2, of exPrice "''X''" 0]
  note early = asof_join_correct [OF h1 h2, of exPriceEarly "''X''" 0]
  from mid l have "isLatestAtOrBefore q_date exQuarters (pd_date exPriceMid) (exQuarters ! 1)"
    by blast
  moreover from late c
  have "isLatestAtOrBefore sd_date exSharesSeries (pd_date exPrice) (exSharesSeries ! 2)"
    by blast
  moreover from early e have "latestQuarterAsOf exQuarters (pd_date exPriceEarly) = None"
    by blast
  moreover from early e have "usPoint ''X'' exQuarters 0 exPriceEarly = None"
    by blast
  moreover from early f have "closestSharesData exSharesSeries (pd_date exPriceEarly) = None"
    by blast
  moreover from early f have "intlPoint ''X'' exSharesSeries 0 exPriceEarly = None"
    by blast
  moreover from e have "list_all (\<lambda>q. pd_date exPriceEarly < q_date q) exQuarters"
    by (simp add: list_all_iff)
  moreover from f have "list_all (\<lambda>s. pd_date exPriceEarly < sd_date s) exSharesSeries"
    by (simp add: list_all_iff)
  ultimately show ?thesis using h1 h2 l u c i by blast
qed

section \<open>No look-ahead\<close>

lemma closestScan_sound:
  "closestScan c ss d = Some s \<Longrightarrow> c = Some s \<or> (s \<in> set ss \<and> sd_date s \<le> d)"
  by (induction ss arbitrary: c) (auto split: if_splits)

lemma closestSharesData_sound:
  "closestSharesData ss d = Some s \<Longrightarrow> s \<in> set ss \<and> sd_date s \<le> d"
  using closestScan_sound [of None ss d s] by (simp add: closestSharesData_def)

lemma set_ttmQuarters: "set (ttmQuarters av) \<subseteq> set av"
  by (simp add: ttmQuarters_def set_drop_subset)

lemma availableQuarters_sound:
  "q \<in> set (availableQuarters qs d) \<Longrightarrow> q \<in> set qs \<and> q_date q \<le> d"
  by (simp add: availableQuarters_def)

lemma availableQuarters_idem:
  "availableQuarters (availableQuarters qs d) d = availableQuarters qs d"
  by (simp add: availableQuarters_def)

lemma latestQuarterAsOf_sound:
  "latestQuarterAsOf qs d = Some q \<Longrightarrow> q \<in> set qs \<and> q_date q \<le> d"
proof -
  assume a: "latestQuarterAsOf qs d = Some q"
  then have ne: "availableQuarters qs d \<noteq> []" and q: "q = last (availableQuarters qs d)"
    by (auto simp: latestQuarterAsOf_def Let_def split: if_splits)
  from ne have "last (availableQuarters qs d) \<in> set (availableQuarters qs d)"
    by (rule last_in_set)
  with q show ?thesis by (simp add: availableQuarters_sound)
qed

lemma closestScan_prefix:
  "closestScan c (takeWhile (\<lambda>s. sd_date s \<le> d) ss) d = closestScan c ss d"
  by (induction ss arbitrary: c) auto

text \<open>
  C4. The statement records whose fields enter a metrics row of price date \<open>d\<close> (the
  latest quarter and the trailing quarters of the US loop, the shares record of the
  international loop) are dated at or before \<open>d\<close>. Records dated after \<open>d\<close> are not
  read: the US row is the same when they are removed, and the international row is the
  same when the list is cut at the first of them.
\<close>

theorem no_look_ahead:
  "(\<forall>r. usPoint tk allQuarters now p = Some r \<longrightarrow>
      (\<exists>latest n. r = usRow tk p latest (ttmQuarters (availableQuarters allQuarters (pd_date p))) n now
         \<and> commonStockSharesOutstanding latest = Num n
         \<and> latest \<in> set allQuarters \<and> q_date latest \<le> pd_date p))
   \<and> (\<forall>q\<in>set (ttmQuarters (availableQuarters allQuarters (pd_date p))).
         q \<in> set allQuarters \<and> q_date q \<le> pd_date p)
   \<and> usPoint tk (filter (\<lambda>q. q_date q \<le> pd_date p) allQuarters) now p
         = usPoint tk allQuarters now p
   \<and> (\<forall>r. intlPoint tk intlStockData now p = Some r \<longrightarrow>
      (\<exists>s n. r = intlRow tk p n now \<and> sd_commonStockSharesOutstanding s = Num n
         \<and> s \<in> set intlStockData \<and> sd_date s \<le> pd_date p))
   \<and> intlPoint tk (takeWhile (\<lambda>s. sd_date s \<le> pd_date p) intlStockData) now p
         = intlPoint tk intlStockData now p"
proof (intro conjI allI impI ballI)
  fix r assume "usPoint tk allQuarters now p = Some r"
  then obtain latest n where
    "latestQuarterAsOf allQuarters (pd_date p) = Some latest"
    "commonStockSharesOutstanding latest = Num n"
    "r = usRow tk p latest (ttmQuarters (availableQuarters allQuarters (pd_date p))) n now"
    using usPoint_Some by blast
  then show "\<exists>latest n. r = usRow tk p latest (ttmQuarters (availableQuarters allQuarters (pd_date p))) n now
         \<and> commonStockSharesOutstanding latest = Num n
         \<and> latest \<in> set allQuarters \<and> q_date latest \<le> pd_date p"
    using latestQuarterAsOf_sound by blast
next
  fix q assume "q \<in> set (ttmQuarters (availableQuarters allQuarters (pd_date p)))"
  then have "q \<in> set (availableQuarters allQuarters (pd_date p))"
    using set_ttmQuarters by blast
  then show "q \<in> set allQuarters" and "q_date q \<le> pd_date p"
    by (simp_all add: availableQuarters_sound)
next
  have "filter (\<lambda>q. q_date q \<le> pd_date p) allQuarters = availableQuarters allQuarters (pd_date p)"
    by (simp add: availableQuarters_def)
  then show "usPoint tk (filter (\<lambda>q. q_date q \<le> pd_date p) allQuarters) now p
         = usPoint tk allQuarters now p"
    by (simp add: usPoint_def availableQuarters_idem)
next
  fix r assume "intlPoint tk intlStockData now p = Some r"
  then obtain s n where
    "closestSharesData intlStockData (pd_date p) = Some s"
    "sd_commonStockSharesOutstanding s = Num n" "r = intlRow tk p n now"
    using intlPoint_Some by blast
  then show "\<exists>s n. r = intlRow tk p n now \<and> sd_commonStockSharesOutstanding s = Num n
         \<and> s \<in> set intlStockData \<and> sd_date s \<le> pd_date p"
    using closestSharesData_sound by blast
next
  show "intlPoint tk (takeWhile (\<lambda>s. sd_date s \<le> pd_date p) intlStockData) now p
         = intlPoint tk intlStockData now p"
    by (simp add: intlPoint_def closestSharesData_def closestScan_prefix)
qed

theorem no_look_ahead_witness:
  "usPoint ''X'' exQuarters 0 exPriceMid
     = Some (usRow ''X'' exPriceMid (exQuarters ! 1) (take 2 exQuarters) 10 0)
   \<and> (\<exists>latest n. usRow ''X'' exPriceMid (exQuarters ! 1) (take 2 exQuarters) 10 0
          = usRow ''X'' exPriceMid latest
              (ttmQuarters (availableQuarters exQuarters (pd_date exPriceMid))) n 0
        \<and> commonStockSharesOutstanding latest = Num n
        \<and> latest \<in> set exQuarters \<and> q_date latest \<le> pd_date exPriceMid)
   \<and> exQuarters ! 1 \<in> set (ttmQuarters (availableQuarters exQuarters (pd_date exPriceMid)))
   \<and> q_date (exQuarters ! 1) \<le> pd_date exPriceMid
   \<and> intlPoint ''X'' exSharesSeries 0 exPrice = Some (intlRow ''X'' exPrice 700 0)
   \<and> (\<exists>s n. intlRow ''X'' exPrice 700 0 = intlRow ''X'' exPrice n 0
        \<and> sd_commonStockSharesOutstanding s = Num n
        \<and> s \<in> set exSharesSeries \<and> sd_date s \<le> pd_date exPrice)"
proof -
  have u: "usPoint ''X'' exQuarters 0 exPriceMid
       = Some (usRow ''X'' exPriceMid (exQuarters ! 1) (take 2 exQuarters) 10 0)"
    by (simp add: usPoint_def availableQuarters_def ttmQuarters_def exQuarters_def
        mkQuarter_def exPriceMid_def Let_def)
  have m: "exQuarters ! 1 \<in> set (ttmQuarters (availableQuarters exQuarters (pd_date exPriceMid)))"
    by (simp add: availableQuarters_def ttmQuarters_def exQuarters_def mkQuarter_def
        exPriceMid_def)
  have i: "intlPoint ''X'' exSharesSeries 0 exPrice = Some (intlRow ''X'' exPrice 700 0)"
    by (simp add: intlPoint_def closestSharesData_def exSharesSeries_def exPrice_def)
  note a = no_look_ahead [of "''X''" exQuarters 0 exPriceMid exSharesSeries]
  note b = no_look_ahead [of "''X''" exQuarters 0 exPrice exSharesSeries]
  from a u have "\<exists>latest n. usRow ''X'' exPriceMid (exQuarters ! 1) (take 2 exQuarters) 10 0
          = usRow ''X'' exPriceMid latest
              (ttmQuarters (availableQuarters exQuarters (pd_date exPriceMid))) n 0
        \<and> commonStockSharesOutstanding latest = Num n
        \<and> latest \<in> set exQuarters \<and> q_date latest \<le> pd_date exPriceMid"
    by simp
  moreover from a m have "q_date (exQuarters ! 1) \<le> pd_date exPriceMid"
    by blast
  moreover from b i have "\<exists>s n. intlRow ''X'' exPrice 700 0 = intlRow ''X'' exPrice n 0
        \<and> sd_commonStockSharesOutstanding s = Num n
        \<and> s \<in> set exSharesSeries \<and> sd_date s \<le> pd_date exPrice"
    by simp
  ultimately show ?thesis using u m i by blast
qed

section \<open>Trailing-twelve-month figures\<close>

lemma foldl_add_sum_list:
  "foldl (\<lambda>sum q. sum + f q) (a::real) xs = a + sum_list (map f xs)"
  by (induction xs arbitrary: a) simp_all

lemma or_num_zero: "or_num v 0 = numOrZero v"
  by (cases v) simp_all

lemma sumNetIncome_sum_list:
  "sumNetIncome ttm = (\<Sum>q\<leftarrow>ttm. numOrZero (netIncome q))"
  by (simp add: sumNetIncome_def foldl_add_sum_list or_num_zero)

lemma sumTotalRevenue_sum_list:
  "sumTotalRevenue ttm = (\<Sum>q\<leftarrow>ttm. numOrZero (totalRevenue q))"
  by (simp add: sumTotalRevenue_def foldl_add_sum_list or_num_zero)

lemma length_ttmQuarters: "length (ttmQuarters av) = min 4 (length av)"
  by (simp add: ttmQuarters_def)

lemma ttmQuarters_suffix:
  "take (length av - length (ttmQuarters av)) av @ ttmQuarters av = av"
  by (simp add: ttmQuarters_def)

lemma ttmQuarters_nonempty: "av \<noteq> [] \<Longrightarrow> ttmQuarters av \<noteq> []"
  by (auto simp: ttmQuarters_def)

lemma ttmQuarters_recent:
  assumes "sorted (map q_date qs)"
  shows "\<forall>q\<in>set (take (length (availableQuarters qs d)
                          - length (ttmQuarters (availableQuarters qs d))) (availableQuarters qs d)).
         \<forall>q'\<in>set (ttmQuarters (availableQuarters qs d)). q_date q \<le> q_date q'"
proof -
  let ?av = "availableQuarters qs d"
  let ?pre = "take (length ?av - length (ttmQuarters ?av)) ?av"
  have "sorted (map q_date ?av)"
    unfolding availableQuarters_def using assms by (rule sorted_filter)
  then have "sorted (map q_date ?pre @ map q_date (ttmQuarters ?av))"
    using ttmQuarters_suffix [of ?av] by (metis map_append)
  then show ?thesis by (auto simp: sorted_append)
qed

lemma usPoint_available:
  "usPoint tk qs now p = Some r \<Longrightarrow> availableQuarters qs (pd_date p) \<noteq> []"
  by (auto simp: usPoint_def Let_def split: if_splits)

lemma usRow_fields:
  "marketCap (usRow tk p latest ttm n now) = pd_price p * n"
  "peRatioTTM (usRow tk p latest ttm n now) = peRatio (pd_price p * n) ttm"
  "psRatioTTM (usRow tk p latest ttm n now) = psRatio (pd_price p * n) ttm"
  "pbRatioTTM (usRow tk p latest ttm n now) = pbRatio (pd_price p * n) latest"
  "enterpriseValue (usRow tk p latest ttm n now) = enterpriseValueOf (pd_price p * n) latest"
  "date (usRow tk p latest ttm n now) = pd_date p"
  "isInternational (usRow tk p latest ttm n now) = False"
  by (simp_all add: usRow_def Let_def)

text \<open>
  C3. For every US row pushed, the trailing quarters are the last min(4, available)
  statements dated at or before the price date, there is at least one, and
  ttmNetIncome = (4 / their number) * (the sum of their netIncome, a missing one counting
  as 0 without reducing the number); ttmTotalRevenue is computed the same way from
  totalRevenue. With four quarters ttmNetIncome is the plain sum, with one quarter it is
  four times that quarter's income. The ratios of the row are taken from these figures.
\<close>

theorem ttm_scaling:
  assumes "usPoint tk allQuarters now p = Some r"
  shows "(let av = availableQuarters allQuarters (pd_date p); ttm = ttmQuarters av in
          1 \<le> length ttm \<and> length ttm = min 4 (length av)
        \<and> take (length av - length ttm) av @ ttm = av
        \<and> (sorted (map q_date allQuarters) \<longrightarrow>
             (\<forall>q\<in>set (take (length av - length ttm) av). \<forall>q'\<in>set ttm. q_date q \<le> q_date q'))
        \<and> ttmNetIncome ttm = 4 / real (length ttm) * (\<Sum>q\<leftarrow>ttm. numOrZero (netIncome q))
        \<and> ttmTotalRevenue ttm = 4 / real (length ttm) * (\<Sum>q\<leftarrow>ttm. numOrZero (totalRevenue q))
        \<and> (length ttm = 4 \<longrightarrow> ttmNetIncome ttm = (\<Sum>q\<leftarrow>ttm. numOrZero (netIncome q)))
        \<and> (\<forall>q. ttm = [q] \<longrightarrow> ttmNetIncome ttm = 4 * numOrZero (netIncome q))
        \<and> peRatioTTM r = peRatio (marketCap r) ttm
        \<and> psRatioTTM r = psRatio (marketCap r) ttm)"
proof -
  let ?av = "availableQuarters allQuarters (pd_date p)"
  let ?ttm = "ttmQuarters ?av"
  from assms have ne: "?av \<noteq> []" by (rule usPoint_available)
  then have len: "1 \<le> length ?ttm"
    using ttmQuarters_nonempty [of ?av] by (cases ?ttm) simp_all
  then have sf: "scaleFactor (length ?ttm) = 4 / real (length ?ttm)"
    by (simp add: scaleFactor_def)
  have ni: "ttmNetIncome ?ttm = 4 / real (length ?ttm) * (\<Sum>q\<leftarrow>?ttm. numOrZero (netIncome q))"
    by (simp add: ttmNetIncome_def sf sumNetIncome_sum_list)
  have tr: "ttmTotalRevenue ?ttm = 4 / real (length ?ttm) * (\<Sum>q\<leftarrow>?ttm. numOrZero (totalRevenue q))"
    by (simp add: ttmTotalRevenue_def sf sumTotalRevenue_sum_list)
  have four: "length ?ttm = 4 \<longrightarrow> ttmNetIncome ?ttm = (\<Sum>q\<leftarrow>?ttm. numOrZero (netIncome q))"
    using ni by simp
  have one: "\<forall>q. ?ttm = [q] \<longrightarrow> ttmNetIncome ?ttm = 4 * numOrZero (netIncome q)"
  proof (intro allI impI)
    fix q assume "?ttm = [q]"
    with ni show "ttmNetIncome ?ttm = 4 * numOrZero (netIncome q)" by simp
  qed
  from assms obtain latest n where
    r: "r = usRow tk p latest ?ttm n now"
    using usPoint_Some by blast
  have pe: "peRatioTTM r = peRatio (marketCap r) ?ttm"
    and ps: "psRatioTTM r = psRatio (marketCap r) ?ttm"
    by (simp_all add: r usRow_fields)
  have recent: "sorted (map q_date allQuarters) \<longrightarrow>
      (\<forall>q\<in>set (take (length ?av - length ?ttm) ?av). \<forall>q'\<in>set ?ttm. q_date q \<le> q_date q')"
    using ttmQuarters_recent [of allQuarters "pd_date p"] by blast
  show ?thesis
    unfolding Let_def
    using len length_ttmQuarters [of ?av] ttmQuarters_suffix [of ?av] recent ni tr four one pe ps
    by blast
qed


theorem ttm_scaling_witness:
  "(\<exists>r. usPoint ''X'' exQuarters 0 exPrice = Some r)
   \<and> ttmNetIncome (ttmQuarters (availableQuarters exQuarters (pd_date exPrice))) = 440
   \<and> (\<exists>r. usPoint ''X'' exQuartersFive 0 exPriceLate = Some r)
   \<and> length (ttmQuarters (availableQuarters exQuartersFive (pd_date exPriceLate))) = 4
   \<and> ttmNetIncome (ttmQuarters (availableQuarters exQuartersFive (pd_date exPriceLate))) = 300
   \<and> ttmTotalRevenue (ttmQuarters (availableQuarters exQuartersFive (pd_date exPriceLate))) = 1660
   \<and> (\<exists>r. usPoint ''X'' exQuartersDebt 0 exPrice = Some r)
   \<and> ttmQuarters (availableQuarters exQuartersDebt (pd_date exPrice)) = exQuartersDebt
   \<and> ttmNetIncome (ttmQuarters (availableQuarters exQuartersDebt (pd_date exPrice))) = 400"
proof -
  have t3: "ttmQuarters (availableQuarters exQuarters (pd_date exPrice)) = exQuarters"
    by (simp add: ttmQuarters_def availableQuarters_def exQuarters_def mkQuarter_def exPrice_def)
  have t4: "ttmQuarters (availableQuarters exQuartersFive (pd_date exPriceLate)) = tl exQuartersFive"
    by (simp add: ttmQuarters_def availableQuarters_def exQuartersFive_def mkQuarter_def
        exPriceLate_def)
  have t1: "ttmQuarters (availableQuarters exQuartersDebt (pd_date exPrice)) = exQuartersDebt"
    by (simp add: ttmQuarters_def availableQuarters_def exQuartersDebt_def mkQuarter_def
        exPrice_def)
  have u3: "\<exists>r. usPoint ''X'' exQuarters 0 exPrice = Some r"
    by (simp add: usPoint_def availableQuarters_def exQuarters_def mkQuarter_def exPrice_def
        Let_def)
  have u4: "\<exists>r. usPoint ''X'' exQuartersFive 0 exPriceLate = Some r"
    by (simp add: usPoint_def availableQuarters_def exQuartersFive_def mkQuarter_def
        exPriceLate_def Let_def)
  have u1: "\<exists>r. usPoint ''X'' exQuartersDebt 0 exPrice = Some r"
    by (simp add: usPoint_def availableQuarters_def exQuartersDebt_def mkQuarter_def
        exPrice_def Let_def)
  have l4: "length (tl exQuartersFive) = 4" by (simp add: exQuartersFive_def)
  have l3: "real (length exQuarters) = 3" by (simp add: exQuarters_def)
  have hd1: "exQuartersDebt = [hd exQuartersDebt]" by (simp add: exQuartersDebt_def)
  from u3 obtain r3 where "usPoint ''X'' exQuarters 0 exPrice = Some r3" ..
  note s3 = ttm_scaling [OF this, unfolded Let_def t3]
  from s3 have "ttmNetIncome exQuarters
      = 4 / real (length exQuarters) * (\<Sum>q\<leftarrow>exQuarters. numOrZero (netIncome q))"
    by blast
  also have "(\<Sum>q\<leftarrow>exQuarters. numOrZero (netIncome q)) = 330"
    by (simp add: exQuarters_def mkQuarter_def)
  finally have v3: "ttmNetIncome exQuarters = 440" by (simp add: l3)
  from u4 obtain r4 where "usPoint ''X'' exQuartersFive 0 exPriceLate = Some r4" ..
  note s4 = ttm_scaling [OF this, unfolded Let_def t4]
  from s4 l4 have "ttmNetIncome (tl exQuartersFive)
      = (\<Sum>q\<leftarrow>tl exQuartersFive. numOrZero (netIncome q))"
    by blast
  also have "\<dots> = 300"
    by (simp add: exQuartersFive_def mkQuarter_def)
  finally have v4: "ttmNetIncome (tl exQuartersFive) = 300" .
  from s4 have "ttmTotalRevenue (tl exQuartersFive)
      = 4 / real (length (tl exQuartersFive)) * (\<Sum>q\<leftarrow>tl exQuartersFive. numOrZero (totalRevenue q))"
    by blast
  also have "(\<Sum>q\<leftarrow>tl exQuartersFive. numOrZero (totalRevenue q)) = 1660"
    by (simp add: exQuartersFive_def mkQuarter_def)
  finally have w4: "ttmTotalRevenue (tl exQuartersFive) = 1660" by (simp add: exQuartersFive_def)
  from u1 obtain r1 where "usPoint ''X'' exQuartersDebt 0 exPrice = Some r1" ..
  note s1 = ttm_scaling [OF this, unfolded Let_def t1]
  from s1 hd1 have "ttmNetIncome exQuartersDebt = 4 * numOrZero (netIncome (hd exQuartersDebt))"
    by blast
  also have "numOrZero (netIncome (hd exQuartersDebt)) = 100"
    by (simp add: exQuartersDebt_def mkQuarter_def)
  finally have v1: "ttmNetIncome exQuartersDebt = 400" by simp
  show ?thesis using u3 u4 u1 t3 t4 t1 v3 v4 w4 v1 l4 by simp
qed

section \<open>Ratios and enterprise value\<close>

lemma usPoint_row:
  assumes "usPoint tk qs now p = Some r"
  obtains latest n where
    "latestQuarterAsOf qs (pd_date p) = Some latest"
    "commonStockSharesOutstanding latest = Num n" "n \<noteq> 0"
    "r = usRow tk p latest (ttmQuarters (availableQuarters qs (pd_date p))) n now"
  using usPoint_Some [OF assms] by blast

lemma pbRatio_cases:
  "pbRatio mc q =
     (case totalStockholderEquity q of
        Num e \<Rightarrow> if 0 < e then Some (mc / e) else None
      | Undefined \<Rightarrow> None | Null \<Rightarrow> None)"
  by (simp add: pbRatio_def)

text \<open>
  C5. In every US row pushed, peRatioTTM is marketCap / ttmNetIncome when ttmNetIncome > 0
  and absent otherwise; psRatioTTM is marketCap / ttmTotalRevenue when ttmTotalRevenue > 0
  and absent otherwise; pbRatioTTM is marketCap / totalStockholderEquity of the latest
  quarter when that field is a number > 0 and absent otherwise (a missing field
  included). No ratio is 0 on a denominator that is missing or not positive.
\<close>

theorem ratio_absence:
  assumes "usPoint tk allQuarters now p = Some r"
  shows "\<exists>latest. latestQuarterAsOf allQuarters (pd_date p) = Some latest \<and>
     (let ttm = ttmQuarters (availableQuarters allQuarters (pd_date p)) in
        (0 < ttmNetIncome ttm \<longrightarrow> peRatioTTM r = Some (marketCap r / ttmNetIncome ttm))
      \<and> (ttmNetIncome ttm \<le> 0 \<longrightarrow> peRatioTTM r = None)
      \<and> (0 < ttmTotalRevenue ttm \<longrightarrow> psRatioTTM r = Some (marketCap r / ttmTotalRevenue ttm))
      \<and> (ttmTotalRevenue ttm \<le> 0 \<longrightarrow> psRatioTTM r = None)
      \<and> (\<forall>e. totalStockholderEquity latest = Num e \<and> 0 < e
             \<longrightarrow> pbRatioTTM r = Some (marketCap r / e))
      \<and> (\<forall>e. totalStockholderEquity latest = Num e \<and> e \<le> 0 \<longrightarrow> pbRatioTTM r = None)
      \<and> (totalStockholderEquity latest = Undefined \<or> totalStockholderEquity latest = Null
             \<longrightarrow> pbRatioTTM r = None))"
proof -
  from assms obtain latest n where
    l: "latestQuarterAsOf allQuarters (pd_date p) = Some latest" and
    r: "r = usRow tk p latest (ttmQuarters (availableQuarters allQuarters (pd_date p))) n now"
    by (rule usPoint_row)
  let ?ttm = "ttmQuarters (availableQuarters allQuarters (pd_date p))"
  have pe: "peRatioTTM r = peRatio (marketCap r) ?ttm"
    and ps: "psRatioTTM r = psRatio (marketCap r) ?ttm"
    and pb: "pbRatioTTM r = pbRatio (marketCap r) latest"
    by (simp_all add: r usRow_fields)
  have 1: "0 < ttmNetIncome ?ttm \<longrightarrow> peRatioTTM r = Some (marketCap r / ttmNetIncome ?ttm)"
    by (simp add: pe peRatio_def)
  have 2: "ttmNetIncome ?ttm \<le> 0 \<longrightarrow> peRatioTTM r = None"
    by (simp add: pe peRatio_def)
  have 3: "0 < ttmTotalRevenue ?ttm \<longrightarrow> psRatioTTM r = Some (marketCap r / ttmTotalRevenue ?ttm)"
    by (simp add: ps psRatio_def)
  have 4: "ttmTotalRevenue ?ttm \<le> 0 \<longrightarrow> psRatioTTM r = None"
    by (simp add: ps psRatio_def)
  have 5: "\<forall>e. totalStockholderEquity latest = Num e \<and> 0 < e
             \<longrightarrow> pbRatioTTM r = Some (marketCap r / e)"
    by (simp add: pb pbRatio_def)
  have 6: "\<forall>e. totalStockholderEquity latest = Num e \<and> e \<le> 0 \<longrightarrow> pbRatioTTM r = None"
    by (auto simp: pb pbRatio_def)
  have 7: "totalStockholderEquity latest = Undefined \<or> totalStockholderEquity latest = Null
             \<longrightarrow> pbRatioTTM r = None"
    by (auto simp: pb pbRatio_def)
  show ?thesis unfolding Let_def using l 1 2 3 4 5 6 7 by blast
qed

theorem ratio_absence_witness:
  "(\<exists>r. usPoint ''X'' exQuarters 0 exPrice = Some r \<and> marketCap r = 500
        \<and> peRatioTTM r = Some (25 / 22) \<and> psRatioTTM r = Some (1 / 2)
        \<and> pbRatioTTM r = Some 2)
   \<and> (\<exists>r. usPoint ''X'' exQuartersLoss 0 exPrice = Some r
        \<and> peRatioTTM r = None \<and> psRatioTTM r = None \<and> pbRatioTTM r = None)"
proof -
  let ?r = "usRow ''X'' exPrice (exQuarters ! 2) exQuarters 10 0"
  let ?ttm = "ttmQuarters (availableQuarters exQuarters (pd_date exPrice))"
  have u: "usPoint ''X'' exQuarters 0 exPrice = Some ?r"
    by (simp add: usPoint_def availableQuarters_def ttmQuarters_def exQuarters_def
        mkQuarter_def exPrice_def Let_def)
  have mc: "marketCap ?r = 500" by (simp add: usRow_fields exPrice_def)
  have lq: "latestQuarterAsOf exQuarters (pd_date exPrice) = Some (exQuarters ! 2)"
    by (simp add: latestQuarterAsOf_def availableQuarters_def exQuarters_def mkQuarter_def
        exPrice_def)
  have ni: "ttmNetIncome ?ttm = 440"
    by (simp add: ttmNetIncome_def sumNetIncome_def scaleFactor_def ttmQuarters_def
        availableQuarters_def exQuarters_def mkQuarter_def exPrice_def)
  have tr: "ttmTotalRevenue ?ttm = 1000"
    by (simp add: ttmTotalRevenue_def sumTotalRevenue_def scaleFactor_def ttmQuarters_def
        availableQuarters_def exQuarters_def mkQuarter_def exPrice_def)
  have eq: "totalStockholderEquity (exQuarters ! 2) = Num 250"
    by (simp add: exQuarters_def mkQuarter_def)
  from ratio_absence [OF u, unfolded Let_def] lq
  have "(0 < ttmNetIncome ?ttm \<longrightarrow> peRatioTTM ?r = Some (marketCap ?r / ttmNetIncome ?ttm))
      \<and> (0 < ttmTotalRevenue ?ttm \<longrightarrow> psRatioTTM ?r = Some (marketCap ?r / ttmTotalRevenue ?ttm))
      \<and> (\<forall>e. totalStockholderEquity (exQuarters ! 2) = Num e \<and> 0 < e
             \<longrightarrow> pbRatioTTM ?r = Some (marketCap ?r / e))"
    by auto
  with ni tr eq mc
  have a: "peRatioTTM ?r = Some (25 / 22) \<and> psRatioTTM ?r = Some (1 / 2) \<and> pbRatioTTM ?r = Some 2"
    by simp
  let ?s = "usRow ''X'' exPrice (exQuartersLoss ! 0) exQuartersLoss 10 0"
  let ?ttl = "ttmQuarters (availableQuarters exQuartersLoss (pd_date exPrice))"
  have u': "usPoint ''X'' exQuartersLoss 0 exPrice = Some ?s"
    by (simp add: usPoint_def availableQuarters_def ttmQuarters_def exQuartersLoss_def
        mkQuarter_def exPrice_def Let_def)
  have lq': "latestQuarterAsOf exQuartersLoss (pd_date exPrice) = Some (exQuartersLoss ! 0)"
    by (simp add: latestQuarterAsOf_def availableQuarters_def exQuartersLoss_def mkQuarter_def
        exPrice_def)
  have ni': "ttmNetIncome ?ttl \<le> 0"
    by (simp add: ttmNetIncome_def sumNetIncome_def scaleFactor_def ttmQuarters_def
        availableQuarters_def exQuartersLoss_def mkQuarter_def exPrice_def)
  have tr': "ttmTotalRevenue ?ttl \<le> 0"
    by (simp add: ttmTotalRevenue_def sumTotalRevenue_def scaleFactor_def ttmQuarters_def
        availableQuarters_def exQuartersLoss_def mkQuarter_def exPrice_def)
  have eq': "totalStockholderEquity (exQuartersLoss ! 0) = Null"
    by (simp add: exQuartersLoss_def mkQuarter_def)
  from ratio_absence [OF u', unfolded Let_def] lq' ni' tr' eq'
  have b: "peRatioTTM ?s = None \<and> psRatioTTM ?s = None \<and> pbRatioTTM ?s = None"
    by auto
  from u mc a u' b show ?thesis by blast
qed

text \<open>
  C6. In every US row pushed, enterpriseValue is computed exactly when at least one of
  longTermDebt, shortTermDebt, shortLongTermDebt, cashAndShortTermInvestments and cash of
  the latest quarter is present (not \<open>undefined\<close>), and is then marketCap + (the three
  debt fields, a missing one counting as 0) - the cash term; when none of the five is
  present it is absent, not marketCap.
\<close>

theorem enterprise_value_trigger:
  assumes "usPoint tk allQuarters now p = Some r"
  shows "\<exists>latest. latestQuarterAsOf allQuarters (pd_date p) = Some latest \<and>
      ((longTermDebt latest \<noteq> Undefined \<or> shortTermDebt latest \<noteq> Undefined
          \<or> shortLongTermDebt latest \<noteq> Undefined
          \<or> cashAndShortTermInvestments latest \<noteq> Undefined \<or> cash latest \<noteq> Undefined)
         \<longrightarrow> enterpriseValue r
               = Some (marketCap r
                   + (numOrZero (longTermDebt latest) + numOrZero (shortTermDebt latest)
                        + numOrZero (shortLongTermDebt latest))
                   - cashTerm latest))
    \<and> (longTermDebt latest = Undefined \<and> shortTermDebt latest = Undefined
          \<and> shortLongTermDebt latest = Undefined
          \<and> cashAndShortTermInvestments latest = Undefined \<and> cash latest = Undefined
         \<longrightarrow> enterpriseValue r = None)"
proof -
  from assms obtain latest n where
    l: "latestQuarterAsOf allQuarters (pd_date p) = Some latest" and
    r: "r = usRow tk p latest (ttmQuarters (availableQuarters allQuarters (pd_date p))) n now"
    by (rule usPoint_row)
  have ev: "enterpriseValue r = enterpriseValueOf (marketCap r) latest"
    by (simp add: r usRow_fields)
  have 1: "(longTermDebt latest \<noteq> Undefined \<or> shortTermDebt latest \<noteq> Undefined
          \<or> shortLongTermDebt latest \<noteq> Undefined
          \<or> cashAndShortTermInvestments latest \<noteq> Undefined \<or> cash latest \<noteq> Undefined)
         \<longrightarrow> enterpriseValue r
               = Some (marketCap r
                   + (numOrZero (longTermDebt latest) + numOrZero (shortTermDebt latest)
                        + numOrZero (shortLongTermDebt latest))
                   - cashTerm latest)"
    by (simp add: ev enterpriseValueOf_def debtFieldsExist_def totalDebt_def or_num_zero)
  have 2: "longTermDebt latest = Undefined \<and> shortTermDebt latest = Undefined
          \<and> shortLongTermDebt latest = Undefined
          \<and> cashAndShortTermInvestments latest = Undefined \<and> cash latest = Undefined
         \<longrightarrow> enterpriseValue r = None"
    by (simp add: ev enterpriseValueOf_def debtFieldsExist_def)
  from l 1 2 show ?thesis by blast
qed

theorem enterprise_value_trigger_witness:
  "(\<exists>r. usPoint ''X'' exQuartersDebt 0 exPrice = Some r \<and> marketCap r = 500
        \<and> longTermDebt (exQuartersDebt ! 0) \<noteq> Undefined
        \<and> enterpriseValue r = Some 760)
   \<and> (\<exists>r. usPoint ''X'' exQuarters 0 exPrice = Some r \<and> marketCap r = 500
        \<and> enterpriseValue r = None)"
proof -
  let ?r = "usRow ''X'' exPrice (exQuartersDebt ! 0) exQuartersDebt 10 0"
  have u: "usPoint ''X'' exQuartersDebt 0 exPrice = Some ?r"
    by (simp add: usPoint_def availableQuarters_def ttmQuarters_def exQuartersDebt_def
        mkQuarter_def exPrice_def Let_def)
  have mc: "marketCap ?r = 500" by (simp add: usRow_fields exPrice_def)
  have lq: "latestQuarterAsOf exQuartersDebt (pd_date exPrice) = Some (exQuartersDebt ! 0)"
    by (simp add: latestQuarterAsOf_def availableQuarters_def exQuartersDebt_def mkQuarter_def
        exPrice_def)
  have f: "longTermDebt (exQuartersDebt ! 0) = Num 300"
    "shortTermDebt (exQuartersDebt ! 0) = Undefined"
    "shortLongTermDebt (exQuartersDebt ! 0) = Undefined"
    "cashTerm (exQuartersDebt ! 0) = 40"
    by (simp_all add: exQuartersDebt_def mkQuarter_def cashTerm_def js_or_def)
  from enterprise_value_trigger [OF u] lq f mc
  have a: "enterpriseValue ?r = Some 760" by simp
  let ?s = "usRow ''X'' exPrice (exQuarters ! 2) exQuarters 10 0"
  have u': "usPoint ''X'' exQuarters 0 exPrice = Some ?s"
    by (simp add: usPoint_def availableQuarters_def ttmQuarters_def exQuarters_def
        mkQuarter_def exPrice_def Let_def)
  have mc': "marketCap ?s = 500" by (simp add: usRow_fields exPrice_def)
  have lq': "latestQuarterAsOf exQuarters (pd_date exPrice) = Some (exQuarters ! 2)"
    by (simp add: latestQuarterAsOf_def availableQuarters_def exQuarters_def mkQuarter_def
        exPrice_def)
  have g: "longTermDebt (exQuarters ! 2) = Undefined \<and> shortTermDebt (exQuarters ! 2) = Undefined
          \<and> shortLongTermDebt (exQuarters ! 2) = Undefined
          \<and> cashAndShortTermInvestments (exQuarters ! 2) = Undefined
          \<and> cash (exQuarters ! 2) = Undefined"
    by (simp add: exQuarters_def mkQuarter_def)
  from enterprise_value_trigger [OF u'] lq' g
  have b: "enterpriseValue ?s = None" by simp
  from u mc f a u' mc' b show ?thesis by auto
qed

text \<open>
  C10. The cash term of the enterprise value is cashAndShortTermInvestments when that
  field holds a number other than 0, otherwise cash when that field holds a number other
  than 0, otherwise 0. With cashAndShortTermInvestments equal to 0 and a positive cash on
  the latest quarter, the positive cash is what the row's enterprise value subtracts.
\<close>

theorem cash_fallback:
  "cashTerm q =
     (if presentNonZero (cashAndShortTermInvestments q)
      then numOrZero (cashAndShortTermInvestments q)
      else if presentNonZero (cash q) then numOrZero (cash q) else 0)
   \<and> (\<forall>r latest c. usPoint tk allQuarters now p = Some r
          \<and> latestQuarterAsOf allQuarters (pd_date p) = Some latest
          \<and> cashAndShortTermInvestments latest = Num 0 \<and> cash latest = Num c \<and> 0 < c
        \<longrightarrow> cashTerm latest = c
          \<and> enterpriseValue r = Some (marketCap r + totalDebt latest - c))"
proof -
  have 1: "cashTerm q =
     (if presentNonZero (cashAndShortTermInvestments q)
      then numOrZero (cashAndShortTermInvestments q)
      else if presentNonZero (cash q) then numOrZero (cash q) else 0)"
    by (cases "cashAndShortTermInvestments q"; cases "cash q")
       (simp_all add: cashTerm_def js_or_def)
  have 2: "cashTerm latest = c \<and> enterpriseValue r = Some (marketCap r + totalDebt latest - c)"
    if a: "usPoint tk allQuarters now p = Some r
          \<and> latestQuarterAsOf allQuarters (pd_date p) = Some latest
          \<and> cashAndShortTermInvestments latest = Num 0 \<and> cash latest = Num c \<and> 0 < c"
    for r latest c
  proof -
    from a obtain latest' n where
      "latestQuarterAsOf allQuarters (pd_date p) = Some latest'"
      "r = usRow tk p latest' (ttmQuarters (availableQuarters allQuarters (pd_date p))) n now"
      using usPoint_row [of tk allQuarters now p r] by blast
    with a have r: "r = usRow tk p latest (ttmQuarters (availableQuarters allQuarters (pd_date p))) n now"
      by simp
    from a have ct: "cashTerm latest = c" by (simp add: cashTerm_def js_or_def)
    from a have "debtFieldsExist latest" by (simp add: debtFieldsExist_def)
    then have "enterpriseValue r = Some (marketCap r + totalDebt latest - c)"
      by (simp add: r usRow_fields enterpriseValueOf_def ct)
    with ct show ?thesis by simp
  qed
  from 1 2 show ?thesis by blast
qed

theorem cash_fallback_witness:
  "(\<exists>r. usPoint ''X'' exQuartersDebt 0 exPrice = Some r
        \<and> latestQuarterAsOf exQuartersDebt (pd_date exPrice) = Some (exQuartersDebt ! 0)
        \<and> cashAndShortTermInvestments (exQuartersDebt ! 0) = Num 0
        \<and> cash (exQuartersDebt ! 0) = Num 40
        \<and> cashTerm (exQuartersDebt ! 0) = 40
        \<and> enterpriseValue r = Some (marketCap r + totalDebt (exQuartersDebt ! 0) - 40)
        \<and> enterpriseValue r = Some 760)"
proof -
  let ?r = "usRow ''X'' exPrice (exQuartersDebt ! 0) exQuartersDebt 10 0"
  have u: "usPoint ''X'' exQuartersDebt 0 exPrice = Some ?r"
    by (simp add: usPoint_def availableQuarters_def ttmQuarters_def exQuartersDebt_def
        mkQuarter_def exPrice_def Let_def)
  have mc: "marketCap ?r = 500" by (simp add: usRow_fields exPrice_def)
  have lq: "latestQuarterAsOf exQuartersDebt (pd_date exPrice) = Some (exQuartersDebt ! 0)"
    by (simp add: latestQuarterAsOf_def availableQuarters_def exQuartersDebt_def mkQuarter_def
        exPrice_def)
  have f: "cashAndShortTermInvestments (exQuartersDebt ! 0) = Num 0"
    "cash (exQuartersDebt ! 0) = Num 40"
    by (simp_all add: exQuartersDebt_def mkQuarter_def)
  have td: "totalDebt (exQuartersDebt ! 0) = 300"
    by (simp add: totalDebt_def exQuartersDebt_def mkQuarter_def)
  from cash_fallback [of "exQuartersDebt ! 0" "''X''" exQuartersDebt 0 exPrice] u lq f
  have a: "cashTerm (exQuartersDebt ! 0) = 40
         \<and> enterpriseValue ?r = Some (marketCap ?r + totalDebt (exQuartersDebt ! 0) - 40)"
    by simp
  with mc td have "enterpriseValue ?r = Some 760" by simp
  with u lq f a show ?thesis by blast
qed

section \<open>The shares-outstanding gate and the international rows\<close>

lemma set_map_filter: "set (List.map_filter f xs) = {y. \<exists>x\<in>set xs. f x = Some y}"
  by (induction xs) (auto simp: List.map_filter_simps split: option.splits)

lemma calculate_us_rows:
  assumes "r \<in> set (calculateHistoricalMetrics fetched intlFound (Inr allQuarters) tk False now)"
  shows "\<exists>p\<in>set (getHistoricalPriceData fetched). usPoint tk allQuarters now p = Some r"
  using assms
  by (auto simp: calculateHistoricalMetrics_def calcBody_def Let_def set_map_filter
      split: if_splits)

lemma calculate_intl_rows:
  assumes "r \<in> set (calculateHistoricalMetrics fetched (Inr intlStockData) usFound tk True now)"
  shows "\<exists>p\<in>set (getHistoricalPriceData fetched). intlPoint tk intlStockData now p = Some r"
  using assms
  by (auto simp: calculateHistoricalMetrics_def calcBody_def Let_def set_map_filter
      split: if_splits)

lemma intlRow_fields:
  "marketCap (intlRow tk p n now) = pd_price p * n"
  "peRatioTTM (intlRow tk p n now) = None"
  "psRatioTTM (intlRow tk p n now) = None"
  "pbRatioTTM (intlRow tk p n now) = None"
  "enterpriseValue (intlRow tk p n now) = None"
  "date (intlRow tk p n now) = pd_date p"
  "isInternational (intlRow tk p n now) = True"
  by (simp_all add: intlRow_def)

lemma not_presentNonZero:
  "\<not> presentNonZero v \<Longrightarrow> v = Undefined \<or> v = Null \<or> v = Num 0"
  by (cases v) simp_all

lemma usPoint_gate:
  assumes "latestQuarterAsOf qs (pd_date p) = Some latest"
    and "\<not> presentNonZero (commonStockSharesOutstanding latest)"
  shows "usPoint tk qs now p = None"
  using assms not_presentNonZero [of "commonStockSharesOutstanding latest"]
  by (auto simp: usPoint_join)

lemma intlPoint_gate:
  assumes "closestSharesData ss (pd_date p) = Some s"
    and "\<not> presentNonZero (sd_commonStockSharesOutstanding s)"
  shows "intlPoint tk ss now p = None"
  using assms not_presentNonZero [of "sd_commonStockSharesOutstanding s"]
  by (auto simp: intlPoint_def)

text \<open>
  C9. When the latest quarter dated at or before a price date has a missing or zero
  commonStockSharesOutstanding, the US loop pushes no row for that date, whatever the
  earlier quarters hold, and the result of the derivation has no row of that date. The
  same holds for the international loop and the shares record it selects.
\<close>

theorem shares_outstanding_gate:
  "(\<forall>latest. latestQuarterAsOf allQuarters (pd_date p) = Some latest
        \<and> \<not> presentNonZero (commonStockSharesOutstanding latest)
      \<longrightarrow> usPoint tk allQuarters now p = None
        \<and> (\<forall>r\<in>set (calculateHistoricalMetrics fetched intlFound (Inr allQuarters) tk False now).
              date r \<noteq> pd_date p))
   \<and> (\<forall>s. closestSharesData intlStockData (pd_date p) = Some s
        \<and> \<not> presentNonZero (sd_commonStockSharesOutstanding s)
      \<longrightarrow> intlPoint tk intlStockData now p = None
        \<and> (\<forall>r\<in>set (calculateHistoricalMetrics fetched (Inr intlStockData) usFound tk True now).
              date r \<noteq> pd_date p))"
proof -
  have us: "usPoint tk allQuarters now p = None
        \<and> (\<forall>r\<in>set (calculateHistoricalMetrics fetched intlFound (Inr allQuarters) tk False now).
              date r \<noteq> pd_date p)"
    if a: "latestQuarterAsOf allQuarters (pd_date p) = Some latest
        \<and> \<not> presentNonZero (commonStockSharesOutstanding latest)" for latest
  proof
    from a show "usPoint tk allQuarters now p = None" by (simp add: usPoint_gate)
    show "\<forall>r\<in>set (calculateHistoricalMetrics fetched intlFound (Inr allQuarters) tk False now).
              date r \<noteq> pd_date p"
    proof
      fix r
      assume "r \<in> set (calculateHistoricalMetrics fetched intlFound (Inr allQuarters) tk False now)"
      then obtain p' where p': "usPoint tk allQuarters now p' = Some r"
        using calculate_us_rows by blast
      then obtain l n where
        "r = usRow tk p' l (ttmQuarters (availableQuarters allQuarters (pd_date p'))) n now"
        by (rule usPoint_row)
      then have d: "date r = pd_date p'" by (simp add: usRow_fields)
      show "date r \<noteq> pd_date p"
      proof
        assume "date r = pd_date p"
        with d a have "usPoint tk allQuarters now p' = None" by (simp add: usPoint_gate)
        with p' show False by simp
      qed
    qed
  qed
  have intl: "intlPoint tk intlStockData now p = None
        \<and> (\<forall>r\<in>set (calculateHistoricalMetrics fetched (Inr intlStockData) usFound tk True now).
              date r \<noteq> pd_date p)"
    if a: "closestSharesData intlStockData (pd_date p) = Some s
        \<and> \<not> presentNonZero (sd_commonStockSharesOutstanding s)" for s
  proof
    from a show "intlPoint tk intlStockData now p = None" by (simp add: intlPoint_gate)
    show "\<forall>r\<in>set (calculateHistoricalMetrics fetched (Inr intlStockData) usFound tk True now).
              date r \<noteq> pd_date p"
    proof
      fix r
      assume "r \<in> set (calculateHistoricalMetrics fetched (Inr intlStockData) usFound tk True now)"
      then obtain p' where p': "intlPoint tk intlStockData now p' = Some r"
        using calculate_intl_rows by blast
      then obtain s' n where "r = intlRow tk p' n now"
        using intlPoint_Some by blast
      then have d: "date r = pd_date p'" by (simp add: intlRow_fields)
      show "date r \<noteq> pd_date p"
      proof
        assume "date r = pd_date p"
        with d a have "intlPoint tk intlStockData now p' = None" by (simp add: intlPoint_gate)
        with p' show False by simp
      qed
    qed
  qed
  from us intl show ?thesis by blast
qed

theorem shares_outstanding_gate_witness:
  "latestQuarterAsOf exQuartersGap (pd_date exPriceMid) = Some (exQuartersGap ! 1)
   \<and> \<not> presentNonZero (commonStockSharesOutstanding (exQuartersGap ! 1))
   \<and> presentNonZero (commonStockSharesOutstanding (exQuartersGap ! 0))
   \<and> usPoint ''X'' exQuartersGap 0 exPriceFirst \<noteq> None
   \<and> usPoint ''X'' exQuartersGap 0 exPriceMid = None
   \<and> list_all (\<lambda>r. date r \<noteq> pd_date exPriceMid)
         (calculateHistoricalMetrics (Inr [exPriceFirst, exPriceMid]) (Inr [])
            (Inr exQuartersGap) ''X'' False 0)
   \<and> closestSharesData exSharesSeries (pd_date exPriceMid) = Some (exSharesSeries ! 1)
   \<and> \<not> presentNonZero (sd_commonStockSharesOutstanding (exSharesSeries ! 1))
   \<and> intlPoint ''X'' exSharesSeries 0 exPriceFirst \<noteq> None
   \<and> intlPoint ''X'' exSharesSeries 0 exPriceMid = None
   \<and> list_all (\<lambda>r. date r \<noteq> pd_date exPriceMid)
         (calculateHistoricalMetrics (Inr [exPriceFirst, exPriceMid])
            (Inr exSharesSeries) (Inr []) ''X'' True 0)"
proof -
  have lq: "latestQuarterAsOf exQuartersGap (pd_date exPriceMid) = Some (exQuartersGap ! 1)"
    by (simp add: latestQuarterAsOf_def availableQuarters_def exQuartersGap_def mkQuarter_def
        exPriceMid_def)
  have z: "\<not> presentNonZero (commonStockSharesOutstanding (exQuartersGap ! 1))"
    and nz: "presentNonZero (commonStockSharesOutstanding (exQuartersGap ! 0))"
    by (simp_all add: exQuartersGap_def mkQuarter_def)
  have f: "usPoint ''X'' exQuartersGap 0 exPriceFirst \<noteq> None"
    by (simp add: usPoint_def availableQuarters_def exQuartersGap_def mkQuarter_def
        exPriceFirst_def Let_def)
  have c: "closestSharesData exSharesSeries (pd_date exPriceMid) = Some (exSharesSeries ! 1)"
    by (simp add: closestSharesData_def exSharesSeries_def exPriceMid_def)
  have z': "\<not> presentNonZero (sd_commonStockSharesOutstanding (exSharesSeries ! 1))"
    by (simp add: exSharesSeries_def)
  have f': "intlPoint ''X'' exSharesSeries 0 exPriceFirst \<noteq> None"
    by (simp add: intlPoint_def closestSharesData_def exSharesSeries_def exPriceFirst_def)
  note g = shares_outstanding_gate [of exQuartersGap exPriceMid "''X''" 0
      "Inr [exPriceFirst, exPriceMid]" "Inr []" exSharesSeries "Inr []"]
  from g lq z have us: "usPoint ''X'' exQuartersGap 0 exPriceMid = None
     \<and> (\<forall>r\<in>set (calculateHistoricalMetrics (Inr [exPriceFirst, exPriceMid]) (Inr [])
                  (Inr exQuartersGap) ''X'' False 0).
         date r \<noteq> pd_date exPriceMid)"
    by blast
  from g c z' have intl: "intlPoint ''X'' exSharesSeries 0 exPriceMid = None
     \<and> (\<forall>r\<in>set (calculateHistoricalMetrics (Inr [exPriceFirst, exPriceMid])
                  (Inr exSharesSeries) (Inr []) ''X'' True 0).
         date r \<noteq> pd_date exPriceMid)"
    by blast
  from lq z nz f c z' f' us intl show ?thesis by (simp add: list_all_iff)
qed

lemma isLatestAtOrBefore_unique:
  assumes "distinct (map f xs)"
    and "isLatestAtOrBefore f xs d x" and "isLatestAtOrBefore f xs d y"
  shows "x = y"
proof -
  from assms(2,3) have x: "x \<in> set xs" and y: "y \<in> set xs"
    and "f x \<le> f y" and "f y \<le> f x"
    by (simp_all add: isLatestAtOrBefore_def)
  then have "f x = f y" by simp
  moreover from assms(1) have "inj_on f (set xs)" by (simp add: distinct_map)
  ultimately show ?thesis using x y by (rule_tac inj_onD)
qed

lemma closestSharesData_latest:
  assumes "sorted (map sd_date ss)" and "distinct (map sd_date ss)"
    and "isLatestAtOrBefore sd_date ss d s"
  shows "closestSharesData ss d = Some s"
proof -
  from assms(3) have "s \<in> set ss" and "\<not> d < sd_date s"
    by (simp_all add: isLatestAtOrBefore_def)
  then have "\<not> (\<forall>s\<in>set ss. d < sd_date s)" by blast
  with assms(1) obtain s' where s': "closestSharesData ss d = Some s'"
    using closestSharesData_None [of ss d] by auto
  with assms(1) have "isLatestAtOrBefore sd_date ss d s'" by (rule closestSharesData_Some)
  with assms(2,3) have "s = s'" by (rule isLatestAtOrBefore_unique)
  with s' show ?thesis by simp
qed

lemma calculate_intl_emits:
  assumes "p \<in> set (getHistoricalPriceData fetched)" and "intlStockData \<noteq> []"
    and "intlPoint tk intlStockData now p = Some r"
  shows "r \<in> set (calculateHistoricalMetrics fetched (Inr intlStockData) usFound tk True now)"
  using assms
  by (auto simp: calculateHistoricalMetrics_def calcBody_def Let_def set_map_filter)

text \<open>
  C7. For an international security whose shares records are sorted by date, one per
  date: at a price date for which the latest record at or before it has a non-zero share
  count, the row pushed has marketCap = price * that count and no peRatioTTM, psRatioTTM,
  pbRatioTTM or enterpriseValue; and every row of the derivation is of this form.
\<close>

theorem foreign_rows:
  assumes "sorted (map sd_date intlStockData)" and "distinct (map sd_date intlStockData)"
  shows "(\<forall>s n. isLatestAtOrBefore sd_date intlStockData (pd_date p) s
            \<and> sd_commonStockSharesOutstanding s = Num n \<and> n \<noteq> 0
          \<longrightarrow> intlPoint tk intlStockData now p = Some (intlRow tk p n now)
            \<and> (p \<in> set (getHistoricalPriceData fetched) \<longrightarrow>
                 intlRow tk p n now
                   \<in> set (calculateHistoricalMetrics fetched (Inr intlStockData) usFound tk True now))
            \<and> marketCap (intlRow tk p n now) = pd_price p * n
            \<and> peRatioTTM (intlRow tk p n now) = None
            \<and> psRatioTTM (intlRow tk p n now) = None
            \<and> pbRatioTTM (intlRow tk p n now) = None
            \<and> enterpriseValue (intlRow tk p n now) = None)
       \<and> (\<forall>r\<in>set (calculateHistoricalMetrics fetched (Inr intlStockData) usFound tk True now).
            peRatioTTM r = None \<and> psRatioTTM r = None \<and> pbRatioTTM r = None
            \<and> enterpriseValue r = None \<and> isInternational r
            \<and> (\<exists>p'\<in>set (getHistoricalPriceData fetched). \<exists>s n.
                  date r = pd_date p'
                  \<and> isLatestAtOrBefore sd_date intlStockData (pd_date p') s
                  \<and> sd_commonStockSharesOutstanding s = Num n \<and> n \<noteq> 0
                  \<and> marketCap r = pd_price p' * n))"
proof -
  have 1: "intlPoint tk intlStockData now p = Some (intlRow tk p n now)
            \<and> (p \<in> set (getHistoricalPriceData fetched) \<longrightarrow>
                 intlRow tk p n now
                   \<in> set (calculateHistoricalMetrics fetched (Inr intlStockData) usFound tk True now))
            \<and> marketCap (intlRow tk p n now) = pd_price p * n
            \<and> peRatioTTM (intlRow tk p n now) = None
            \<and> psRatioTTM (intlRow tk p n now) = None
            \<and> pbRatioTTM (intlRow tk p n now) = None
            \<and> enterpriseValue (intlRow tk p n now) = None"
    if a: "isLatestAtOrBefore sd_date intlStockData (pd_date p) s
            \<and> sd_commonStockSharesOutstanding s = Num n \<and> n \<noteq> 0" for s n
  proof -
    from a assms have c: "closestSharesData intlStockData (pd_date p) = Some s"
      by (simp add: closestSharesData_latest)
    with a have pt: "intlPoint tk intlStockData now p = Some (intlRow tk p n now)"
      by (simp add: intlPoint_def)
    from a have ne: "intlStockData \<noteq> []" by (auto simp: isLatestAtOrBefore_def)
    have "p \<in> set (getHistoricalPriceData fetched) \<longrightarrow>
                 intlRow tk p n now
                   \<in> set (calculateHistoricalMetrics fetched (Inr intlStockData) usFound tk True now)"
      using calculate_intl_emits [OF _ ne pt] by blast
    with pt show ?thesis by (simp add: intlRow_fields)
  qed
  have 2: "peRatioTTM r = None \<and> psRatioTTM r = None \<and> pbRatioTTM r = None
            \<and> enterpriseValue r = None \<and> isInternational r
            \<and> (\<exists>p'\<in>set (getHistoricalPriceData fetched). \<exists>s n.
                  date r = pd_date p'
                  \<and> isLatestAtOrBefore sd_date intlStockData (pd_date p') s
                  \<and> sd_commonStockSharesOutstanding s = Num n \<and> n \<noteq> 0
                  \<and> marketCap r = pd_price p' * n)"
    if a: "r \<in> set (calculateHistoricalMetrics fetched (Inr intlStockData) usFound tk True now)"
    for r
  proof -
    from a obtain p' where p': "p' \<in> set (getHistoricalPriceData fetched)"
      and pt: "intlPoint tk intlStockData now p' = Some r"
      using calculate_intl_rows by blast
    from pt obtain s n where c: "closestSharesData intlStockData (pd_date p') = Some s"
      and n: "sd_commonStockSharesOutstanding s = Num n" "n \<noteq> 0"
      and r: "r = intlRow tk p' n now"
      using intlPoint_Some by blast
    from assms(1) c have l: "isLatestAtOrBefore sd_date intlStockData (pd_date p') s"
      by (rule closestSharesData_Some)
    have "date r = pd_date p'
        \<and> isLatestAtOrBefore sd_date intlStockData (pd_date p') s
        \<and> sd_commonStockSharesOutstanding s = Num n \<and> n \<noteq> 0
        \<and> marketCap r = pd_price p' * n"
      using l n by (simp add: r intlRow_fields)
    then have "\<exists>s n. date r = pd_date p'
        \<and> isLatestAtOrBefore sd_date intlStockData (pd_date p') s
        \<and> sd_commonStockSharesOutstanding s = Num n \<and> n \<noteq> 0
        \<and> marketCap r = pd_price p' * n"
      by (intro exI)
    with p' have ex: "\<exists>p'\<in>set (getHistoricalPriceData fetched). \<exists>s n.
                  date r = pd_date p'
                  \<and> isLatestAtOrBefore sd_date intlStockData (pd_date p') s
                  \<and> sd_commonStockSharesOutstanding s = Num n \<and> n \<noteq> 0
                  \<and> marketCap r = pd_price p' * n"
      by (rule rev_bexI)
    have "peRatioTTM r = None \<and> psRatioTTM r = None \<and> pbRatioTTM r = None
            \<and> enterpriseValue r = None \<and> isInternational r"
      by (simp add: r intlRow_fields)
    with ex show ?thesis by (intro conjI) (elim conjE, assumption)+
  qed
  show ?thesis
  proof (rule conjI)
    show "\<forall>s n. isLatestAtOrBefore sd_date intlStockData (pd_date p) s
            \<and> sd_commonStockSharesOutstanding s = Num n \<and> n \<noteq> 0
          \<longrightarrow> intlPoint tk intlStockData now p = Some (intlRow tk p n now)
            \<and> (p \<in> set (getHistoricalPriceData fetched) \<longrightarrow>
                 intlRow tk p n now
                   \<in> set (calculateHistoricalMetrics fetched (Inr intlStockData) usFound tk True now))
            \<and> marketCap (intlRow tk p n now) = pd_price p * n
            \<and> peRatioTTM (intlRow tk p n now) = None
            \<and> psRatioTTM (intlRow tk p n now) = None
            \<and> pbRatioTTM (intlRow tk p n now) = None
            \<and> enterpriseValue (intlRow tk p n now) = None"
      by (intro allI impI) (rule 1)
    show "\<forall>r\<in>set (calculateHistoricalMetrics fetched (Inr intlStockData) usFound tk True now).
            peRatioTTM r = None \<and> psRatioTTM r = None \<and> pbRatioTTM r = None
            \<and> enterpriseValue r = None \<and> isInternational r
            \<and> (\<exists>p'\<in>set (getHistoricalPriceData fetched). \<exists>s n.
                  date r = pd_date p'
                  \<and> isLatestAtOrBefore sd_date intlStockData (pd_date p') s
                  \<and> sd_commonStockSharesOutstanding s = Num n \<and> n \<noteq> 0
                  \<and> marketCap r = pd_price p' * n)"
      by (intro ballI) (rule 2)
  qed
qed

theorem foreign_rows_witness:
  "sorted (map sd_date exShares) \<and> distinct (map sd_date exShares)
   \<and> isLatestAtOrBefore sd_date exShares (pd_date exIntlPrice) (exShares ! 0)
   \<and> sd_commonStockSharesOutstanding (exShares ! 0) = Num 1000000
   \<and> intlPoint ''Y'' exShares 0 exIntlPrice = Some (intlRow ''Y'' exIntlPrice 1000000 0)
   \<and> intlRow ''Y'' exIntlPrice 1000000 0
       \<in> set (calculateHistoricalMetrics (Inr [exIntlPrice]) (Inr exShares) (Inr []) ''Y'' True 0)
   \<and> marketCap (intlRow ''Y'' exIntlPrice 1000000 0) = 12500000
   \<and> peRatioTTM (intlRow ''Y'' exIntlPrice 1000000 0) = None
   \<and> psRatioTTM (intlRow ''Y'' exIntlPrice 1000000 0) = None
   \<and> pbRatioTTM (intlRow ''Y'' exIntlPrice 1000000 0) = None
   \<and> enterpriseValue (intlRow ''Y'' exIntlPrice 1000000 0) = None"
proof -
  have h1: "sorted (map sd_date exShares)" and h2: "distinct (map sd_date exShares)"
    by (simp_all add: exShares_def)
  have l: "isLatestAtOrBefore sd_date exShares (pd_date exIntlPrice) (exShares ! 0)"
    by (simp add: isLatestAtOrBefore_def exShares_def exIntlPrice_def)
  have n: "sd_commonStockSharesOutstanding (exShares ! 0) = Num 1000000"
    by (simp add: exShares_def)
  have m: "exIntlPrice \<in> set (getHistoricalPriceData (Inr [exIntlPrice]))"
    by (simp add: getHistoricalPriceData_def)
  have v: "pd_price exIntlPrice * 1000000 = 12500000"
    by (simp add: exIntlPrice_def)
  have nz: "(1000000::real) \<noteq> 0" by simp
  note fr = foreign_rows [OF h1 h2, of exIntlPrice "''Y''" 0 "Inr [exIntlPrice]" "Inr []",
      THEN conjunct1, THEN spec [where x = "exShares ! 0"],
      THEN spec [where x = 1000000], THEN mp]
  from l n nz have pre: "isLatestAtOrBefore sd_date exShares (pd_date exIntlPrice) (exShares ! 0)
      \<and> sd_commonStockSharesOutstanding (exShares ! 0) = Num 1000000 \<and> (1000000::real) \<noteq> 0"
    by blast
  from fr [OF pre] m
  have "intlPoint ''Y'' exShares 0 exIntlPrice = Some (intlRow ''Y'' exIntlPrice 1000000 0)
     \<and> intlRow ''Y'' exIntlPrice 1000000 0
         \<in> set (calculateHistoricalMetrics (Inr [exIntlPrice]) (Inr exShares) (Inr []) ''Y'' True 0)
     \<and> marketCap (intlRow ''Y'' exIntlPrice 1000000 0) = pd_price exIntlPrice * 1000000
     \<and> peRatioTTM (intlRow ''Y'' exIntlPrice 1000000 0) = None
     \<and> psRatioTTM (intlRow ''Y'' exIntlPrice 1000000 0) = None
     \<and> pbRatioTTM (intlRow ''Y'' exIntlPrice 1000000 0) = None
     \<and> enterpriseValue (intlRow ''Y'' exIntlPrice 1000000 0) = None"
    by blast
  with h1 h2 l n v show ?thesis by simp
qed

section \<open>Isolation of a failing derivation within a batch\<close>

lemma deriveTicker_throws:
  "derivationThrows src intlTickers now tk \<Longrightarrow> deriveTicker src intlTickers now tk = []"
  by (simp add: derivationThrows_def deriveTicker_def calculateHistoricalMetrics_def
      split: sum.splits)

lemma deriveTicker_returns:
  "calcBody (fetchPrices src tk) (findIntl src tk) (findQuarters src tk) tk
     (tk \<in> set intlTickers) now = Inr metrics \<Longrightarrow>
   deriveTicker src intlTickers now tk = metrics"
  by (simp add: deriveTicker_def calculateHistoricalMetrics_def)

lemma concat_map_skip_empty:
  "(\<And>x. P x \<Longrightarrow> f x = []) \<Longrightarrow>
   concat (map f xs) = concat (map f (filter (\<lambda>x. \<not> P x) xs))"
  by (induction xs) simp_all

lemma batchAllMetrics_successful:
  "batchAllMetrics src intlTickers now batch =
     concat (map (deriveTicker src intlTickers now)
       (filter (\<lambda>t. \<not> derivationThrows src intlTickers now t) batch))"
  unfolding batchAllMetrics_def
  by (rule concat_map_skip_empty) (rule deriveTicker_throws)

text \<open>
  C8. Within a batch, a security whose derivation throws contributes the empty list (the
  exception is caught inside the derivation), a security whose derivation returns
  contributes the rows returned, and the rows collected for the batch are exactly those
  of the securities whose derivation did not throw, in batch order; saveMetrics is called
  with these rows whenever there is one.
\<close>

theorem batch_isolation:
  "(derivationThrows src intlTickers now tk \<longrightarrow> deriveTicker src intlTickers now tk = [])
   \<and> (\<forall>metrics. calcBody (fetchPrices src tk) (findIntl src tk) (findQuarters src tk) tk
          (tk \<in> set intlTickers) now = Inr metrics
        \<longrightarrow> deriveTicker src intlTickers now tk = metrics)
   \<and> batchAllMetrics src intlTickers now batch
       = concat (map (deriveTicker src intlTickers now)
           (filter (\<lambda>t. \<not> derivationThrows src intlTickers now t) batch))
   \<and> (concat (map (deriveTicker src intlTickers now)
           (filter (\<lambda>t. \<not> derivationThrows src intlTickers now t) batch)) \<noteq> []
        \<longrightarrow> batchSave src intlTickers now batch
            = Some (concat (map (deriveTicker src intlTickers now)
                (filter (\<lambda>t. \<not> derivationThrows src intlTickers now t) batch))))
   \<and> (concat (map (deriveTicker src intlTickers now)
           (filter (\<lambda>t. \<not> derivationThrows src intlTickers now t) batch)) = []
        \<longrightarrow> batchSave src intlTickers now batch = None)"
proof -
  let ?ok = "concat (map (deriveTicker src intlTickers now)
           (filter (\<lambda>t. \<not> derivationThrows src intlTickers now t) batch))"
  have 1: "derivationThrows src intlTickers now tk \<longrightarrow> deriveTicker src intlTickers now tk = []"
    by (simp add: deriveTicker_throws)
  have 2: "\<forall>metrics. calcBody (fetchPrices src tk) (findIntl src tk) (findQuarters src tk) tk
          (tk \<in> set intlTickers) now = Inr metrics
        \<longrightarrow> deriveTicker src intlTickers now tk = metrics"
    by (simp add: deriveTicker_returns)
  have 3: "batchAllMetrics src intlTickers now batch = ?ok"
    by (rule batchAllMetrics_successful)
  have 4: "?ok \<noteq> [] \<longrightarrow> batchSave src intlTickers now batch = Some ?ok"
    by (simp add: batchSave_def 3 Let_def)
  have 5: "?ok = [] \<longrightarrow> batchSave src intlTickers now batch = None"
    by (simp add: batchSave_def 3 Let_def)
  from 1 2 3 4 5 show ?thesis by (intro conjI)
qed

theorem batch_isolation_witness:
  "derivationThrows exSources [''C''] 0 ''A''
   \<and> deriveTicker exSources [''C''] 0 ''A'' = []
   \<and> \<not> derivationThrows exSources [''C''] 0 ''B''
   \<and> \<not> derivationThrows exSources [''C''] 0 ''C''
   \<and> deriveTicker exSources [''C''] 0 ''B''
       = [usRow ''B'' exPrice (exQuarters ! 2) exQuarters 10 0]
   \<and> deriveTicker exSources [''C''] 0 ''C'' = [intlRow ''C'' exPrice 700 0]
   \<and> batchAllMetrics exSources [''C''] 0 [''A'', ''B'', ''C'']
       = [usRow ''B'' exPrice (exQuarters ! 2) exQuarters 10 0, intlRow ''C'' exPrice 700 0]
   \<and> batchSave exSources [''C''] 0 [''A'', ''B'', ''C'']
       = Some [usRow ''B'' exPrice (exQuarters ! 2) exQuarters 10 0,
               intlRow ''C'' exPrice 700 0]"
proof -
  have neq: "exQuarters \<noteq> []" and nes: "exSharesSeries \<noteq> []"
    by (simp_all add: exQuarters_def exSharesSeries_def)
  have u: "usPoint ''B'' exQuarters 0 exPrice
      = Some (usRow ''B'' exPrice (exQuarters ! 2) exQuarters 10 0)"
    by (simp add: usPoint_def availableQuarters_def ttmQuarters_def exQuarters_def
        mkQuarter_def exPrice_def Let_def)
  have i: "intlPoint ''C'' exSharesSeries 0 exPrice = Some (intlRow ''C'' exPrice 700 0)"
    by (simp add: intlPoint_def closestSharesData_def exSharesSeries_def exPrice_def)
  have bA: "calcBody (fetchPrices exSources ''A'') (findIntl exSources ''A'')
      (findQuarters exSources ''A'') ''A'' (''A'' \<in> set [''C'']) 0 = Inl StoreError"
    by (simp add: calcBody_def getHistoricalPriceData_def exSources_def)
  have bB: "calcBody (fetchPrices exSources ''B'') (findIntl exSources ''B'')
      (findQuarters exSources ''B'') ''B'' (''B'' \<in> set [''C'']) 0
      = Inr [usRow ''B'' exPrice (exQuarters ! 2) exQuarters 10 0]"
    by (simp add: calcBody_def getHistoricalPriceData_def exSources_def neq u
        List.map_filter_simps)
  have bC: "calcBody (fetchPrices exSources ''C'') (findIntl exSources ''C'')
      (findQuarters exSources ''C'') ''C'' (''C'' \<in> set [''C'']) 0
      = Inr [intlRow ''C'' exPrice 700 0]"
    by (simp add: calcBody_def getHistoricalPriceData_def exSources_def nes i
        List.map_filter_simps)
  have tA: "derivationThrows exSources [''C''] 0 ''A''"
    using bA by (simp add: derivationThrows_def)
  have tB: "\<not> derivationThrows exSources [''C''] 0 ''B''"
    using bB by (simp add: derivationThrows_def)
  have tC: "\<not> derivationThrows exSources [''C''] 0 ''C''"
    using bC by (simp add: derivationThrows_def)
  note a = batch_isolation [of exSources "[''C'']" 0 "''A''" "[''A'', ''B'', ''C'']"]
  note b = batch_isolation [of exSources "[''C'']" 0 "''B''" "[''A'', ''B'', ''C'']"]
  note c = batch_isolation [of exSources "[''C'']" 0 "''C''" "[''A'', ''B'', ''C'']"]
  from a tA have dA: "deriveTicker exSources [''C''] 0 ''A'' = []" by blast
  from b bB have dB: "deriveTicker exSources [''C''] 0 ''B''
       = [usRow ''B'' exPrice (exQuarters ! 2) exQuarters 10 0]" by blast
  from c bC have dC: "deriveTicker exSources [''C''] 0 ''C'' = [intlRow ''C'' exPrice 700 0]"
    by blast
  have ok: "concat (map (deriveTicker exSources [''C''] 0)
           (filter (\<lambda>t. \<not> derivationThrows exSources [''C''] 0 t) [''A'', ''B'', ''C'']))
       = [usRow ''B'' exPrice (exQuarters ! 2) exQuarters 10 0, intlRow ''C'' exPrice 700 0]"
    by (simp add: tA tB tC dB dC)
  from a have "batchAllMetrics exSources [''C''] 0 [''A'', ''B'', ''C'']
       = concat (map (deriveTicker exSources [''C''] 0)
           (filter (\<lambda>t. \<not> derivationThrows exSources [''C''] 0 t) [''A'', ''B'', ''C'']))"
    by blast
  with ok have all: "batchAllMetrics exSources [''C''] 0 [''A'', ''B'', ''C'']
       = [usRow ''B'' exPrice (exQuarters ! 2) exQuarters 10 0, intlRow ''C'' exPrice 700 0]"
    by simp
  from a have "concat (map (deriveTicker exSources [''C''] 0)
           (filter (\<lambda>t. \<not> derivationThrows exSources [''C''] 0 t) [''A'', ''B'', ''C''])) \<noteq> []
        \<longrightarrow> batchSave exSources [''C''] 0 [''A'', ''B'', ''C'']
            = Some (concat (map (deriveTicker exSources [''C''] 0)
                (filter (\<lambda>t. \<not> derivationThrows exSources [''C''] 0 t) [''A'', ''B'', ''C''])))"
    by blast
  with ok have sv: "batchSave exSources [''C''] 0 [''A'', ''B'', ''C'']
       = Some [usRow ''B'' exPrice (exQuarters ! 2) exQuarters 10 0,
               intlRow ''C'' exPrice 700 0]"
    by simp
  from tA dA tB tC dB dC all sv show ?thesis by (intro conjI)
qed

section \<open>Idempotence of staging and merge\<close>

lemma insertLoop_eq: "insertLoop i rows temp = temp @ drop i rows"
proof (induction i rows temp rule: insertLoop.induct)
  case (1 i rows temp)
  show ?case
  proof (cases "i < length rows")
    case True
    have "take 500 (drop i rows) @ drop (i + 500) rows = drop i rows"
      by (metis add.commute append_take_drop_id drop_drop)
    with True 1 show ?thesis by (subst insertLoop.simps) simp
  next
    case False
    then show ?thesis by (subst insertLoop.simps) simp
  qed
qed

lemma staging_holds_batch: "insertPriceMetricsToTempTable metrics [] = metrics"
  by (simp add: insertPriceMetricsToTempTable_def insertLoop_eq)

lemma keyMatch_iff: "keyMatch t s = ((ticker t, date t) = (ticker s, date s))"
  by (auto simp: keyMatch_def)

lemma keyMatch_refl: "keyMatch s s"
  by (simp add: keyMatch_def)

lemma keyMatch_updateSet: "keyMatch (updateSet t s) s' = keyMatch t s'"
  by (simp add: keyMatch_def updateSet_def)

lemma keyMatch_updateSet_right: "keyMatch t (updateSet t' s) = keyMatch t t'"
  by (simp add: keyMatch_def updateSet_def)

lemma updateSet_idem: "updateSet (updateSet t s) s = updateSet t s"
  by (simp add: updateSet_def)

text \<open>On a match the target row takes every column of the staging row except \<open>symbol\<close>.\<close>

lemma updateSet_columns:
  "keyMatch t s \<Longrightarrow> updateSet t s = s\<lparr> symbol := symbol t \<rparr>"
  by (simp add: keyMatch_def updateSet_def)

lemma updateSet_self: "updateSet s s = s"
  by (simp add: updateSet_def)

lemma distinct_filter_le1:
  "distinct (map k xs) \<Longrightarrow> length (filter (\<lambda>x. v = k x) xs) \<le> 1"
proof (induction xs)
  case Nil
  show ?case by simp
next
  case (Cons x xs)
  show ?case
  proof (cases "v = k x")
    case True
    with Cons.prems have "\<forall>y\<in>set xs. v \<noteq> k y" by auto
    then have "filter (\<lambda>x. v = k x) xs = []" by (simp add: filter_empty_conv)
    with True show ?thesis by simp
  next
    case False
    with Cons show ?thesis by simp
  qed
qed

lemma oneRowPerKey_matches:
  "oneRowPerKey S \<Longrightarrow> length (filter (keyMatch t) S) \<le> 1"
  using distinct_filter_le1 [of "\<lambda>r. (ticker r, date r)" S "(ticker t, date t)"]
  by (simp add: oneRowPerKey_def keyMatch_iff [abs_def])

lemma distinct_find_self:
  "distinct (map k xs) \<Longrightarrow> x \<in> set xs \<Longrightarrow> find (\<lambda>y. k x = k y) xs = Some x"
proof (induction xs)
  case Nil
  then show ?case by simp
next
  case (Cons a xs)
  show ?case
  proof (cases "x = a")
    case True
    then show ?thesis by simp
  next
    case False
    with Cons.prems have x: "x \<in> set xs" by simp
    then have "k x \<in> k ` set xs" by (rule imageI)
    with Cons.prems have "k x \<noteq> k a" by auto
    with Cons x show ?thesis by simp
  qed
qed

lemma oneRowPerKey_find:
  "oneRowPerKey S \<Longrightarrow> s \<in> set S \<Longrightarrow> find (keyMatch s) S = Some s"
  using distinct_find_self [of "\<lambda>r. (ticker r, date r)" S s]
  by (simp add: oneRowPerKey_def keyMatch_iff [abs_def])

lemma mergeQuery_succeeds:
  assumes "oneRowPerKey S"
  shows "mergeQuery T S =
     Inr (map (\<lambda>t. case find (keyMatch t) S of None \<Rightarrow> t | Some s \<Rightarrow> updateSet t s) T
          @ filter (\<lambda>s. \<not> list_ex (\<lambda>t. keyMatch t s) T) S)"
proof -
  have "\<not> list_ex (\<lambda>t. 1 < length (filter (keyMatch t) S)) T"
    using oneRowPerKey_matches [OF assms] by (auto simp: list_ex_iff not_less)
  then show ?thesis by (simp add: mergeQuery_def)
qed

lemma matched_update_idem:
  "(case find (keyMatch (case find (keyMatch t) S of None \<Rightarrow> t | Some s \<Rightarrow> updateSet t s)) S of
      None \<Rightarrow> (case find (keyMatch t) S of None \<Rightarrow> t | Some s \<Rightarrow> updateSet t s)
    | Some s' \<Rightarrow> updateSet (case find (keyMatch t) S of None \<Rightarrow> t | Some s \<Rightarrow> updateSet t s) s')
   = (case find (keyMatch t) S of None \<Rightarrow> t | Some s \<Rightarrow> updateSet t s)"
proof (cases "find (keyMatch t) S")
  case None
  then show ?thesis by simp
next
  case (Some s)
  have "keyMatch (updateSet t s) = keyMatch t"
    by (rule ext) (rule keyMatch_updateSet)
  with Some show ?thesis by (simp add: updateSet_idem)
qed

lemma inserted_update_idem:
  assumes "oneRowPerKey S" and "s \<in> set S"
  shows "(case find (keyMatch s) S of None \<Rightarrow> s | Some s' \<Rightarrow> updateSet s s') = s"
  using oneRowPerKey_find [OF assms] by (simp add: updateSet_self)

lemma merge_covers_batch:
  assumes "s \<in> set S"
  shows "list_ex (\<lambda>t. keyMatch t s)
           (map (\<lambda>t. case find (keyMatch t) S of None \<Rightarrow> t | Some s \<Rightarrow> updateSet t s) T
            @ filter (\<lambda>s. \<not> list_ex (\<lambda>t. keyMatch t s) T) S)"
proof (cases "list_ex (\<lambda>t. keyMatch t s) T")
  case True
  then obtain t where t: "t \<in> set T" "keyMatch t s" by (auto simp: list_ex_iff)
  have "keyMatch (case find (keyMatch t) S of None \<Rightarrow> t | Some s \<Rightarrow> updateSet t s) s"
    using t(2) by (simp add: keyMatch_updateSet split: option.splits)
  with t(1) show ?thesis by (auto simp: list_ex_iff)
next
  case False
  with assms have "s \<in> set (filter (\<lambda>s. \<not> list_ex (\<lambda>t. keyMatch t s) T) S)" by simp
  then show ?thesis using keyMatch_refl [of s] by (auto simp: list_ex_iff)
qed

lemma mergeQuery_idem:
  assumes "oneRowPerKey S" and "mergeQuery T S = Inr T'"
  shows "mergeQuery T' S = Inr T'"
proof -
  let ?upd = "\<lambda>t. case find (keyMatch t) S of None \<Rightarrow> t | Some s \<Rightarrow> updateSet t s"
  let ?ins = "filter (\<lambda>s. \<not> list_ex (\<lambda>t. keyMatch t s) T) S"
  from assms have T': "T' = map ?upd T @ ?ins"
    by (simp add: mergeQuery_succeeds)
  have a: "map ?upd (map ?upd T) = map ?upd T"
  proof (rule map_idI)
    fix x assume "x \<in> set (map ?upd T)"
    then obtain t where x: "x = ?upd t" by auto
    show "?upd x = x" unfolding x by (rule matched_update_idem)
  qed
  have b: "map ?upd ?ins = ?ins"
  proof (rule map_idI)
    fix s assume "s \<in> set ?ins"
    then have "s \<in> set S" by simp
    with assms(1) show "?upd s = s" by (rule inserted_update_idem)
  qed
  have "\<forall>s\<in>set S. list_ex (\<lambda>t. keyMatch t s) T'"
    unfolding T' using merge_covers_batch by blast
  then have c: "filter (\<lambda>s. \<not> list_ex (\<lambda>t. keyMatch t s) T') S = []"
    by (simp add: filter_empty_conv)
  have "mergeQuery T' S = Inr (map ?upd T' @ filter (\<lambda>s. \<not> list_ex (\<lambda>t. keyMatch t s) T') S)"
    using assms(1) by (rule mergeQuery_succeeds)
  also have "map ?upd T' = T'" by (simp only: T' map_append a b)
  finally show ?thesis by (simp add: c)
qed

text \<open>
  C2. For every state \<open>T\<close> of the durable table and every batch \<open>B\<close> with at most one row
  per (ticker, date), staging \<open>B\<close> and merging it succeeds, and doing the same a second
  time on the resulting table leaves that table as it is.
\<close>

theorem merge_idempotent:
  assumes "oneRowPerKey B"
  shows "\<exists>T'. stagingMerge T B = Inr T' \<and> stagingMerge T' B = Inr T'"
proof -
  from assms obtain T' where 1: "mergeQuery T B = Inr T'"
    by (simp add: mergeQuery_succeeds)
  with assms have "mergeQuery T' B = Inr T'" by (rule mergeQuery_idem)
  with 1 show ?thesis
    by (simp add: stagingMerge_def mergeTempTableToMainTable_def staging_holds_batch)
qed

theorem merge_idempotent_witness:
  "oneRowPerKey exBatch
   \<and> stagingMerge exMain exBatch
       = Inr [(mkRow ''B'' 35 50 500 2)\<lparr> symbol := ''B.US'' \<rparr>, mkRow ''B'' 36 51 510 2]
   \<and> stagingMerge [(mkRow ''B'' 35 50 500 2)\<lparr> symbol := ''B.US'' \<rparr>, mkRow ''B'' 36 51 510 2]
         exBatch
       = Inr [(mkRow ''B'' 35 50 500 2)\<lparr> symbol := ''B.US'' \<rparr>, mkRow ''B'' 36 51 510 2]"
proof -
  have h: "oneRowPerKey exBatch"
    by (simp add: oneRowPerKey_def exBatch_def mkRow_def)
  have e: "stagingMerge exMain exBatch
       = Inr [(mkRow ''B'' 35 50 500 2)\<lparr> symbol := ''B.US'' \<rparr>, mkRow ''B'' 36 51 510 2]"
    by (simp add: stagingMerge_def mergeTempTableToMainTable_def staging_holds_batch
        mergeQuery_def keyMatch_def updateSet_def exMain_def exBatch_def mkRow_def)
  from merge_idempotent [OF h, of exMain] obtain T' where
    "stagingMerge exMain exBatch = Inr T'" and "stagingMerge T' exBatch = Inr T'"
    by blast
  with e h show ?thesis by simp
qed

end
